theory Spec2Isabelle
  imports Complex_Main "HOL-Library.Word"
begin

unbundle bit_operations_syntax

section \<open>JavaScript strings\<close>

text \<open>
  A JavaScript string is a sequence of UTF-16 code units, and \<open>length\<close> counts code
  units. Text data and attribute values are therefore lists of code units; tag names and
  attribute names, which the source only ever compares with ASCII literals, stay HOL
  strings. \<open>js\<close> turns an ASCII literal into its code units.
\<close>

type_synonym jstring = "nat list"

definition js :: "string \<Rightarrow> jstring" where
  "js s = map of_char s"

text \<open>The class \<open>\s\<close> of regular expressions, which is also what \<open>trim\<close> strips.\<close>

definition is_space :: "nat \<Rightarrow> bool" where
  "is_space c = (c \<in> set [9, 10, 11, 12, 13, 32, 160, 5760, 8232, 8233, 8239, 8287, 12288, 65279]
     \<or> (8192 \<le> c \<and> c \<le> 8202))"

text \<open>The class \<open>\w\<close>: ASCII letters, digits and the underscore.\<close>

definition is_word_char :: "nat \<Rightarrow> bool" where
  "is_word_char c = ((48 \<le> c \<and> c \<le> 57) \<or> (65 \<le> c \<and> c \<le> 90) \<or> c = 95 \<or> (97 \<le> c \<and> c \<le> 122))"

text \<open>What \<open>.\<close> refuses to match: the four line terminators.\<close>

definition is_line_terminator :: "nat \<Rightarrow> bool" where
  "is_line_terminator c = (c = 10 \<or> c = 13 \<or> c = 8232 \<or> c = 8233)"

definition trim :: "jstring \<Rightarrow> jstring" where
  "trim s = rev (dropWhile is_space (rev (dropWhile is_space s)))"

definition ascii_lower :: "nat \<Rightarrow> nat" where
  "ascii_lower c = (if 65 \<le> c \<and> c \<le> 90 then c + 32 else c)"

text \<open>
  \<open>String.prototype.toLowerCase\<close> belongs to the runtime. The model lowers the ASCII
  letters and the two other code points whose lower-case form contains an ASCII letter
  (U+0130 becomes \<open>i\<close> followed by U+0307, the Kelvin sign U+212A becomes \<open>k\<close>). Every
  other code unit is kept as it is: the runtime sends it to code units outside ASCII, and
  the only reader of the result, the split on \<open>\W+\<close>, treats all of those as separators.
\<close>

definition toLowerCase :: "jstring \<Rightarrow> jstring" where
  "toLowerCase s = concat (map (\<lambda>c. if c = 304 then [105, 775] else if c = 8490 then [107]
     else [ascii_lower c]) s)"

text \<open>
  \<open>s.split(re)\<close> for a regular expression \<open>re\<close> that matches the non-empty runs of one
  class of code units (\<open>/\W+/\<close>, \<open>/\s+/\<close>): the separators are the maximal runs; a
  separator at either end of the string leaves an empty string in the result, and the
  empty string splits into one empty string.
\<close>

function split_runs :: "(nat \<Rightarrow> bool) \<Rightarrow> jstring \<Rightarrow> jstring \<Rightarrow> jstring list" where
  "split_runs sep acc [] = [rev acc]"
| "split_runs sep acc (c # cs) =
     (if sep c then rev acc # split_runs sep [] (dropWhile sep cs)
      else split_runs sep (c # acc) cs)"
  by pat_completeness auto
termination
  by (relation "measure (\<lambda>(sep, acc, s). length s)")
    (auto simp: length_dropWhile_le less_Suc_eq_le)

definition split_nonword :: "jstring \<Rightarrow> jstring list" where
  "split_nonword s = split_runs (\<lambda>c. \<not> is_word_char c) [] s"

definition split_space :: "jstring \<Rightarrow> jstring list" where
  "split_space s = split_runs is_space [] s"

text \<open>\<open>xs.join(sep)\<close>\<close>

fun join :: "jstring \<Rightarrow> jstring list \<Rightarrow> jstring" where
  "join sep [] = []"
| "join sep [x] = x"
| "join sep (x # y # ys) = x @ sep @ join sep (y # ys)"

section \<open>JavaScript numbers\<close>

text \<open>
  A number is an IEEE 754 double: a finite value, given exactly as a rational, the
  negative zero, an infinity or \<open>NaN\<close>. \<open>Num 0\<close> is the positive zero.
\<close>

datatype number = Num rat | NegZero | PosInf | NegInf | NaN

text \<open>
  The binary exponent of a positive rational \<open>a\<close>: the \<open>e\<close> with \<open>2 ^ e \<le> a < 2 ^ (e + 1)\<close>,
  by halving down to below two; below one, from the exponent of the inverse.
\<close>

function exponent_up :: "rat \<Rightarrow> nat" where
  "exponent_up a = (if 2 \<le> a then Suc (exponent_up (a / 2)) else 0)"
  by pat_completeness auto
termination
proof (relation "measure (\<lambda>a. nat \<lfloor>a\<rfloor>)")
  show "wf (measure (\<lambda>a. nat \<lfloor>a\<rfloor>))" by simp
next
  fix a :: rat
  assume a: "2 \<le> a"
  have "a / 2 \<le> a - 1" using a by simp
  then have "\<lfloor>a / 2\<rfloor> \<le> \<lfloor>a - 1\<rfloor>" by (rule floor_mono)
  then have "\<lfloor>a / 2\<rfloor> < \<lfloor>a\<rfloor>" by simp
  moreover have "0 < \<lfloor>a\<rfloor>" using a by simp
  ultimately show "(a / 2, a) \<in> measure (\<lambda>a. nat \<lfloor>a\<rfloor>)" by simp
qed

declare exponent_up.simps [simp del]

definition exponent :: "rat \<Rightarrow> int" where
  "exponent a =
     (if 1 \<le> a then int (exponent_up a)
      else let u = exponent_up (1 / a) in if 1 / a = 2 ^ u then - int u else - int u - 1)"

definition scale2 :: "int \<Rightarrow> rat" where
  "scale2 q = (if 0 \<le> q then 2 ^ nat q else 1 / 2 ^ nat (- q))"

text \<open>The nearest integer, the even one of two that are equally near.\<close>

definition round_half_even :: "rat \<Rightarrow> int" where
  "round_half_even x =
     (let f = \<lfloor>x\<rfloor>; r = x - of_int f in
      if r < 1 / 2 then f else if 1 / 2 < r then f + 1 else if even f then f else f + 1)"

text \<open>
  The magnitude of the double nearest to a magnitude: 53 significant bits, and no bit
  below \<open>2 ^ - 1074\<close>. The result is not yet bounded from above.
\<close>

definition round_magnitude :: "rat \<Rightarrow> rat" where
  "round_magnitude m =
     (if m \<le> 0 then 0
      else let q = max (exponent m - 52) (- 1074)
           in of_int (round_half_even (m / scale2 q)) * scale2 q)"

text \<open>The number with a sign and a magnitude; a magnitude of \<open>2 ^ 1024\<close> or more overflows.\<close>

definition signed :: "bool \<Rightarrow> rat \<Rightarrow> number" where
  "signed neg m =
     (if 2 ^ 1024 \<le> m then (if neg then NegInf else PosInf)
      else if m = 0 then (if neg then NegZero else Num 0)
      else Num (if neg then - m else m))"

definition to_number :: "rat \<Rightarrow> number" where
  "to_number r = signed (r < 0) (round_magnitude \<bar>r\<bar>)"

fun is_negative :: "number \<Rightarrow> bool" where
  "is_negative (Num r) = (r < 0)"
| "is_negative NegZero = True"
| "is_negative PosInf = False"
| "is_negative NegInf = True"
| "is_negative NaN = False"

text \<open>The value of a finite number.\<close>

fun finite_value :: "number \<Rightarrow> rat option" where
  "finite_value (Num r) = Some r"
| "finite_value NegZero = Some 0"
| "finite_value n = None"

definition is_zero :: "number \<Rightarrow> bool" where
  "is_zero x = (finite_value x = Some 0)"

definition is_infinite :: "number \<Rightarrow> bool" where
  "is_infinite x = (x = PosInf \<or> x = NegInf)"

definition num_neg :: "number \<Rightarrow> number" where
  "num_neg x = (case x of Num r \<Rightarrow> if r = 0 then NegZero else Num (- r) | NegZero \<Rightarrow> Num 0
     | PosInf \<Rightarrow> NegInf | NegInf \<Rightarrow> PosInf | NaN \<Rightarrow> NaN)"

definition num_add :: "number \<Rightarrow> number \<Rightarrow> number" where
  "num_add x y =
     (if x = NaN \<or> y = NaN then NaN
      else if is_infinite x \<and> is_infinite y then (if x = y then x else NaN)
      else if is_infinite x then x
      else if is_infinite y then y
      else
        let v = the (finite_value x) + the (finite_value y) in
        if v = 0 then (if is_negative x \<and> is_negative y then NegZero else Num 0)
        else to_number v)"

definition num_sub :: "number \<Rightarrow> number \<Rightarrow> number" where
  "num_sub x y = num_add x (num_neg y)"

definition num_mul :: "number \<Rightarrow> number \<Rightarrow> number" where
  "num_mul x y =
     (let neg = (is_negative x \<noteq> is_negative y) in
      if x = NaN \<or> y = NaN then NaN
      else if is_infinite x \<or> is_infinite y then
        (if is_zero x \<or> is_zero y then NaN else if neg then NegInf else PosInf)
      else signed neg (round_magnitude \<bar>the (finite_value x) * the (finite_value y)\<bar>))"

definition num_div :: "number \<Rightarrow> number \<Rightarrow> number" where
  "num_div x y =
     (let neg = (is_negative x \<noteq> is_negative y) in
      if x = NaN \<or> y = NaN then NaN
      else if is_infinite x then (if is_infinite y then NaN else if neg then NegInf else PosInf)
      else if is_infinite y then (if neg then NegZero else Num 0)
      else if is_zero y then (if is_zero x then NaN else if neg then NegInf else PosInf)
      else signed neg (round_magnitude \<bar>the (finite_value x) / the (finite_value y)\<bar>))"

text \<open>
  The comparisons. \<open>NaN\<close> is not comparable with anything, itself included, and the two
  zeros are equal.
\<close>

definition num_lt :: "number \<Rightarrow> number \<Rightarrow> bool" where
  "num_lt x y =
     (if x = NaN \<or> y = NaN then False
      else if x = PosInf \<or> y = NegInf then False
      else if x = NegInf \<or> y = PosInf then True
      else the (finite_value x) < the (finite_value y))"

definition num_eq :: "number \<Rightarrow> number \<Rightarrow> bool" where
  "num_eq x y =
     (if x = NaN \<or> y = NaN then False
      else if is_infinite x \<or> is_infinite y then x = y
      else finite_value x = finite_value y)"

definition num_gt :: "number \<Rightarrow> number \<Rightarrow> bool" where
  "num_gt x y = num_lt y x"

definition num_le :: "number \<Rightarrow> number \<Rightarrow> bool" where
  "num_le x y = (num_lt x y \<or> num_eq x y)"

definition num_ge :: "number \<Rightarrow> number \<Rightarrow> bool" where
  "num_ge x y = num_le y x"

text \<open>\<open>Math.max\<close> of two numbers: \<open>NaN\<close> if either is, and the positive zero above the negative.\<close>

definition num_max :: "number \<Rightarrow> number \<Rightarrow> number" where
  "num_max x y =
     (if x = NaN \<or> y = NaN then NaN
      else if num_lt x y then y
      else if num_lt y x then x
      else if is_negative x then y else x)"

text \<open>A number used as a condition: the zeros and \<open>NaN\<close> are falsy.\<close>

definition num_truthy :: "number \<Rightarrow> bool" where
  "num_truthy x = (\<not> is_zero x \<and> x \<noteq> NaN)"

text \<open>\<open>Math.floor\<close>\<close>

definition num_floor :: "number \<Rightarrow> number" where
  "num_floor x = (case x of Num r \<Rightarrow> Num (of_int \<lfloor>r\<rfloor>) | _ \<Rightarrow> x)"

text \<open>The number of a count or of a length.\<close>

definition of_count :: "nat \<Rightarrow> number" where
  "of_count n = to_number (of_nat n)"

section \<open>Text similarity (textUtils.ts)\<close>

text \<open>
  \<open>textA.toLowerCase().split(tokenize).filter(Boolean)\<close>: the empty strings are dropped.
\<close>

definition tokens :: "jstring \<Rightarrow> jstring list" where
  "tokens s = filter (\<lambda>t. t \<noteq> []) (split_nonword (toLowerCase s))"

definition textSimilarity :: "jstring \<Rightarrow> jstring \<Rightarrow> number" where
  "textSimilarity textA textB =
     (let tokensA = tokens textA; tokensB = tokens textB in
      if tokensA = [] \<or> tokensB = [] then Num 0
      else
        let uniqTokensB = filter (\<lambda>token. token \<notin> set tokensA) tokensB;
            distanceB = num_div (of_count (length (join (js '' '') uniqTokensB)))
                          (of_count (length (join (js '' '') tokensB)))
        in num_sub (Num 1) distanceB)"

section \<open>The document tree\<close>

text \<open>
  The tree that the HTML parser hands over: elements with their tag name, their
  attributes in document order and their children; text, comment and directive nodes;
  CDATA sections; and the root. The third field of an element is the expando
  \<open>_readabilityDataTable\<close> that \<open>markDataTables\<close> attaches to tables: \<open>None\<close> while it
  is undefined.
\<close>

datatype node =
    Element string "(string \<times> jstring) list" "bool option" "node list"
  | Text jstring
  | Comment jstring
  | Directive jstring
  | CData "node list"
  | Root "node list"

fun tagName :: "node \<Rightarrow> string" where
  "tagName (Element t a d ks) = t"
| "tagName n = []"

fun attribs :: "node \<Rightarrow> (string \<times> jstring) list" where
  "attribs (Element t a d ks) = a"
| "attribs n = []"

fun childNodes :: "node \<Rightarrow> node list" where
  "childNodes (Element t a d ks) = ks"
| "childNodes (CData ks) = ks"
| "childNodes (Root ks) = ks"
| "childNodes n = []"

fun isElement :: "node \<Rightarrow> bool" where
  "isElement (Element t a d ks) = True"
| "isElement n = False"

text \<open>\<open>$node.attr(name)\<close>: \<open>None\<close> is \<open>undefined\<close>.\<close>

definition attr :: "node \<Rightarrow> string \<Rightarrow> jstring option" where
  "attr n name = map_of (attribs n) name"

text \<open>A value used as a condition: \<open>undefined\<close> and the empty string are falsy.\<close>

fun truthy :: "jstring option \<Rightarrow> bool" where
  "truthy None = False"
| "truthy (Some s) = (s \<noteq> [])"

text \<open>
  \<open>$node.text()\<close>: the data of all text nodes below the node, in document order. Comments
  and directives contribute nothing.
\<close>

fun text_of :: "node \<Rightarrow> jstring" where
  "text_of (Element t a d ks) = concat (map text_of ks)"
| "text_of (Text s) = s"
| "text_of (Comment s) = []"
| "text_of (Directive s) = []"
| "text_of (CData ks) = concat (map text_of ks)"
| "text_of (Root ks) = concat (map text_of ks)"

text \<open>
  Selection walks from element to element: the element itself and every element that is
  reached from it through elements only, in document order. What lies below a node of
  another kind inside the tree, such as the content of a \<open>template\<close>, which hangs below
  the element as a second root, is not reached.
\<close>

fun elements :: "node \<Rightarrow> node list" where
  "elements (Element t a d ks) = Element t a d ks # concat (map elements ks)"
| "elements n = []"

text \<open>\<open>$node.find('*')\<close>, and \<open>$('*')\<close> when the node is the root of the document.\<close>

definition find_all :: "node \<Rightarrow> node list" where
  "find_all n = concat (map elements (childNodes n))"

text \<open>\<open>$node.find('t1, t2, ...')\<close>: the elements strictly below the node with one of the tags.\<close>

definition find_tags :: "string list \<Rightarrow> node \<Rightarrow> node list" where
  "find_tags tags n = filter (\<lambda>e. tagName e \<in> set tags) (find_all n)"

text \<open>\<open>$node.children()\<close>: the element children.\<close>

definition children :: "node \<Rightarrow> node list" where
  "children n = filter isElement (childNodes n)"

section \<open>Text utilities (textUtils.ts)\<close>

text \<open>\<open>s.replace(/\s{2,}/g, ' ')\<close>: a run of two or more whitespace units becomes one space.\<close>

function normalize_spaces :: "jstring \<Rightarrow> jstring" where
  "normalize_spaces [] = []"
| "normalize_spaces (c # cs) =
     (if is_space c \<and> takeWhile is_space cs \<noteq> [] then 32 # normalize_spaces (dropWhile is_space cs)
      else c # normalize_spaces cs)"
  by pat_completeness auto
termination
  by (relation "measure length") (auto simp: length_dropWhile_le less_Suc_eq_le)

definition getInnerText :: "node \<Rightarrow> bool \<Rightarrow> jstring" where
  "getInnerText element normalizeSpaces =
     (let textContent = trim (text_of element) in
      if normalizeSpaces then normalize_spaces textContent else textContent)"

text \<open>\<open>hashUrl = /^#.+/\<close>: a hash sign followed by one unit that is not a line terminator.\<close>

fun hashUrl :: "jstring \<Rightarrow> bool" where
  "hashUrl (c # d # rest) = (c = 35 \<and> \<not> is_line_terminator d)"
| "hashUrl s = False"

definition coefficient :: "node \<Rightarrow> number" where
  "coefficient linkNode =
     (let href = attr linkNode ''href'' in
      if truthy href \<and> hashUrl (the href) then to_number (3 / 10) else Num 1)"

definition getLinkDensity :: "node \<Rightarrow> number" where
  "getLinkDensity element =
     (let textLength = length (getInnerText element True) in
      if textLength = 0 then Num 0
      else
        let linkLength = foldl (\<lambda>linkLength linkNode.
              num_add linkLength
                (num_mul (of_count (length (getInnerText linkNode True))) (coefficient linkNode)))
              (Num 0) (find_tags [''a''] element)
        in num_div linkLength (of_count textLength))"

section \<open>Data tables (Readability.markDataTables)\<close>

text \<open>
  \<open>parseInt(s, 10)\<close>: leading whitespace, an optional sign, then the longest run of
  decimal digits, whose value is rounded to a number; \<open>NaN\<close> without a digit, and the
  negative zero for a zero after a minus sign.
\<close>

definition is_digit :: "nat \<Rightarrow> bool" where
  "is_digit c = (48 \<le> c \<and> c \<le> 57)"

definition digits_value :: "jstring \<Rightarrow> int" where
  "digits_value ds = foldl (\<lambda>v c. 10 * v + (int c - 48)) 0 ds"

definition parseInt :: "jstring \<Rightarrow> number" where
  "parseInt s =
     (let t = dropWhile is_space s;
          negative_sign = (t \<noteq> [] \<and> hd t = 45);
          u = (if t \<noteq> [] \<and> (hd t = 45 \<or> hd t = 43) then tl t else t);
          ds = takeWhile is_digit u
      in if ds = [] then NaN
         else if digits_value ds = 0 then (if negative_sign then NegZero else Num 0)
         else to_number (of_int (if negative_sign then - digits_value ds else digits_value ds)))"

text \<open>
  \<open>let span = $x.attr(name) || 0; if (typeof span === 'string') span = parseInt(span, 10)\<close>
  followed by \<open>span || 1\<close>: a missing or empty attribute, \<open>NaN\<close> and zero all count as one.
\<close>

definition span_of :: "node \<Rightarrow> string \<Rightarrow> number" where
  "span_of x name =
     (let span = (if truthy (attr x name) then parseInt (the (attr x name)) else Num 0)
      in if num_truthy span then span else Num 1)"

definition getRowAndColumnCount :: "node \<Rightarrow> number \<times> number" where
  "getRowAndColumnCount table =
     foldl (\<lambda>(rows, columns) tr.
        let columnsInThisRow =
              foldl (\<lambda>n cell. num_add n (span_of cell ''colspan'')) (Num 0) (find_tags [''td''] tr)
        in (num_add rows (span_of tr ''rowspan''), num_max columns columnsInThisRow))
      (Num 0, Num 0) (find_tags [''tr''] table)"

text \<open>
  The value that the callback of \<open>markDataTables\<close> stores in \<open>_readabilityDataTable\<close> for one
  table. \<open>$table.find('caption *')\<close> is every element below a caption below the table.
\<close>

definition markDataTable :: "node \<Rightarrow> bool" where
  "markDataTable table =
     (if attr table ''role'' = Some (js ''presentation'') then False
      else if attr table ''datatable'' = Some (js ''0'') then False
      else if truthy (attr table ''summary'') then True
      else if concat (map find_all (find_tags [''caption''] table)) \<noteq> [] then True
      else if find_tags [''col'', ''colgroup'', ''tfoot'', ''thead'', ''th''] table \<noteq> [] then True
      else if find_tags [''table''] table \<noteq> [] then False
      else
        let (rows, columns) = getRowAndColumnCount table in
        if num_eq columns (Num 1) \<or> num_eq rows (Num 1) then False
        else if num_ge rows (Num 10) \<or> num_gt columns (Num 4) then True
        else num_gt (num_mul rows columns) (Num 10))"

text \<open>Every table below the element receives its verdict; other nodes are untouched.\<close>

fun markDataTables_node :: "node \<Rightarrow> node" where
  "markDataTables_node (Element t a d ks) =
     Element t a (if t = ''table'' then Some (markDataTable (Element t a d ks)) else d)
       (map markDataTables_node ks)"
| "markDataTables_node n = n"

fun markDataTables :: "node \<Rightarrow> node" where
  "markDataTables (Element t a d ks) = Element t a d (map markDataTables_node ks)"
| "markDataTables n = n"

text \<open>\<open>isDataTable(t)\<close> reads the expando; undefined is falsy.\<close>

definition isDataTable :: "node \<Rightarrow> bool" where
  "isDataTable t = (case t of Element n a d ks \<Rightarrow> d = Some True | _ \<Rightarrow> False)"

section \<open>Options, flags and the runtime\<close>

text \<open>
  The options that the modelled code reads. \<open>allowedVideoRegex\<close> is any regular expression
  of the caller, so it is a predicate on strings; \<open>serializer\<close> is any function of the
  caller from the article (or \<open>null\<close>) to the content.
\<close>

record options =
  maxElemsToParse :: int
  charThreshold :: number
  keepClasses :: bool
  classesToPreserve :: "jstring list"
  disableJSONLD :: bool
  allowedVideoRegex :: "jstring \<Rightarrow> bool"
  linkDensityModifier :: number
  extraction :: bool
  serializer :: "node option \<Rightarrow> jstring option"
  baseURI :: "jstring option"

text \<open>
  What the code takes from outside the repository: the HTML serializer behind
  \<open>$el.html()\<close>; the case folding that a regular expression with the flags \<open>iu\<close> applies
  to both the pattern and the subject before it compares them; the inner HTML of the
  body, read and written (\<open>$page.html()\<close>, \<open>$page.html(str)\<close>); \<open>$el.prop(name)\<close>, which
  resolves \<open>href\<close> and \<open>src\<close> against the base of the document; the HTML parser behind
  \<open>replaceWith(string)\<close>; and the rewriting of a \<open>srcset\<close> against a base URI.
\<close>

record runtime =
  html :: "node \<Rightarrow> jstring"
  canonicalize :: "nat \<Rightarrow> nat"
  bodyHtml :: "node \<Rightarrow> jstring"
  setBodyHtml :: "jstring \<Rightarrow> node \<Rightarrow> node"
  propOf :: "node \<Rightarrow> string \<Rightarrow> jstring option"
  parseFragment :: "jstring \<Rightarrow> node list"
  absoluteSrcset :: "jstring \<Rightarrow> jstring \<Rightarrow> jstring"

definition FLAG_STRIP_UNLIKELYS :: "32 word" where "FLAG_STRIP_UNLIKELYS = 1"
definition FLAG_WEIGHT_CLASSES :: "32 word" where "FLAG_WEIGHT_CLASSES = 2"
definition FLAG_CLEAN_CONDITIONALLY :: "32 word" where "FLAG_CLEAN_CONDITIONALLY = 4"

definition flagIsActive :: "32 word \<Rightarrow> 32 word \<Rightarrow> bool" where
  "flagIsActive flags flag = (sint (flags AND flag) > 0)"

definition removeFlag :: "32 word \<Rightarrow> 32 word \<Rightarrow> 32 word" where
  "removeFlag flags flag = flags AND NOT flag"

section \<open>Regular expressions of regexes.ts\<close>

fun startsWith :: "jstring \<Rightarrow> jstring \<Rightarrow> bool" where
  "startsWith s [] = True"
| "startsWith [] (p # ps) = False"
| "startsWith (c # cs) (p # ps) = (c = p \<and> startsWith cs ps)"

definition endsWith :: "jstring \<Rightarrow> jstring \<Rightarrow> bool" where
  "endsWith s p = startsWith (rev s) (rev p)"

fun includes_str :: "jstring \<Rightarrow> jstring \<Rightarrow> bool" where
  "includes_str [] p = (p = [])"
| "includes_str (c # cs) p = (startsWith (c # cs) p \<or> includes_str cs p)"

text \<open>
  \<open>negative\<close> and \<open>positive\<close> carry the flag \<open>i\<close> alone and consist of ASCII literals, so a
  subject unit matches a pattern unit exactly when both are the same ASCII letter up to
  case: the subject is lowered on ASCII and searched for the lower-case alternatives. The
  four alternatives around \<open>hid\<close> are anchored as written.
\<close>

definition negative :: "jstring \<Rightarrow> bool" where
  "negative s =
     (let l = map ascii_lower s in
      list_ex (\<lambda>w. includes_str l (js w))
        [''-ad-'', ''hidden'', ''banner'', ''combx'', ''comment'', ''com-'', ''contact'', ''foot'',
         ''footer'', ''footnote'', ''gdpr'', ''masthead'', ''media'', ''meta'', ''outbrain'',
         ''promo'', ''related'', ''scroll'', ''share'', ''shoutbox'', ''sidebar'', ''skyscraper'',
         ''sponsor'', ''shopping'', ''tags'', ''tool'', ''widget'']
      \<or> l = js ''hid'' \<or> endsWith l (js '' hid'') \<or> includes_str l (js '' hid '')
      \<or> startsWith l (js ''hid ''))"

definition positive :: "jstring \<Rightarrow> bool" where
  "positive s =
     (let l = map ascii_lower s in
      list_ex (\<lambda>w. includes_str l (js w))
        [''article'', ''body'', ''content'', ''entry'', ''hentry'', ''h-entry'', ''main'', ''page'',
         ''pagination'', ''post'', ''text'', ''blog'', ''story''])"

text \<open>
  \<open>adWords\<close> and \<open>loadingWords\<close> are anchored at both ends and carry the flags \<open>iu\<close>: the
  subject matches when it equals one of the alternatives after both have been folded.
  The alternatives, in code units: ad, advertising, advertisement, pub, publicit\'e, werb,
  werbung, the two Chinese characters U+5E7F U+544A, the Russian word, Anuncio.
\<close>

definition adWordList :: "jstring list" where
  "adWordList =
     [js ''ad'', js ''advertising'', js ''advertisement'', js ''pub'',
      js ''publicit'' @ [233], js ''werb'', js ''werbung'', [24191, 21578],
      [1056, 1077, 1082, 1083, 1072, 1084, 1072], js ''Anuncio'']"

definition adWords :: "runtime \<Rightarrow> jstring \<Rightarrow> bool" where
  "adWords rt s = (map (canonicalize rt) s \<in> set (map (map (canonicalize rt)) adWordList))"

text \<open>
  loading, the Chinese U+6B63 U+5728 U+52A0 U+8F7D, the Russian word, chargement, cargando;
  each alone, or followed by the ellipsis U+2026, or by three full stops.
\<close>

definition loadingWordList :: "jstring list" where
  "loadingWordList =
     concat (map (\<lambda>w. [w, w @ [8230], w @ js ''...''])
       [js ''loading'', [27491, 22312, 21152, 36733],
        [1047, 1072, 1075, 1088, 1091, 1079, 1082, 1072], js ''chargement'', js ''cargando''])"

definition loadingWords :: "runtime \<Rightarrow> jstring \<Rightarrow> bool" where
  "loadingWords rt s = (map (canonicalize rt) s \<in> set (map (map (canonicalize rt)) loadingWordList))"

section \<open>Ancestors (ancestors.ts)\<close>

text \<open>
  A node of the tree does not know its parent, so the functions that climb take the chain
  of ancestors, the parent first. The \<open>type\<close> of a parent is \<open>tag\<close> for every element
  except \<open>script\<close> and \<open>style\<close>.
\<close>

fun nodeType :: "node \<Rightarrow> string" where
  "nodeType (Element t a d ks) =
     (if t = ''script'' then ''script'' else if t = ''style'' then ''style'' else ''tag'')"
| "nodeType (Text s) = ''text''"
| "nodeType (Comment s) = ''comment''"
| "nodeType (Directive s) = ''directive''"
| "nodeType (CData ks) = ''cdata''"
| "nodeType (Root ks) = ''root''"

fun hasAncestorTag_from :: "nat \<Rightarrow> node list \<Rightarrow> string \<Rightarrow> int \<Rightarrow> (node \<Rightarrow> bool) \<Rightarrow> bool" where
  "hasAncestorTag_from depth [] tag maxDepth filterFn = False"
| "hasAncestorTag_from depth (parentNode # up) tag maxDepth filterFn =
     (if maxDepth > 0 \<and> int depth > maxDepth then False
      else if nodeType parentNode = ''tag'' \<and> tagName parentNode = tag \<and> filterFn parentNode then True
      else hasAncestorTag_from (Suc depth) up tag maxDepth filterFn)"

definition hasAncestorTag :: "node list \<Rightarrow> string \<Rightarrow> int \<Rightarrow> (node \<Rightarrow> bool) \<Rightarrow> bool" where
  "hasAncestorTag ancestors tag maxDepth filterFn = hasAncestorTag_from 0 ancestors tag maxDepth filterFn"

definition alwaysTrue :: "node \<Rightarrow> bool" where
  "alwaysTrue n = True"

section \<open>Conditional cleaning (Readability.cleanConditionally)\<close>

definition getClassWeight :: "32 word \<Rightarrow> node \<Rightarrow> int" where
  "getClassWeight flags el =
     (if \<not> flagIsActive flags FLAG_WEIGHT_CLASSES then 0
      else
        let className = attr el ''class'';
            idAttr = attr el ''id'';
            w1 = (if truthy className
                  then (if negative (the className) then - 25 else 0)
                     + (if positive (the className) then 25 else 0)
                  else 0);
            w2 = (if truthy idAttr
                  then (if negative (the idAttr) then - 25 else 0)
                     + (if positive (the idAttr) then 25 else 0)
                  else 0)
        in w1 + w2)"

definition getTextDensity :: "node \<Rightarrow> string list \<Rightarrow> number" where
  "getTextDensity el tags =
     (let textLength = length (getInnerText el True) in
      if textLength = 0 then Num 0
      else
        let childrenLength =
              foldl (\<lambda>n child. num_add n (of_count (length (getInnerText child True))))
                (Num 0) (find_tags tags el)
        in num_div childrenLength (of_count textLength))"

text \<open>\<open>DIV_TO_P_ELEMS\<close> of utils.ts.\<close>

definition DIV_TO_P_ELEMS :: "string list" where
  "DIV_TO_P_ELEMS = [''blockquote'', ''dl'', ''div'', ''img'', ''ol'', ''p'', ''pre'', ''table'', ''ul'']"

text \<open>
  The loop over \<open>$node.find('object, embed, iframe')\<close> leaves the callback with \<open>false\<close> at
  the first embed one of whose attribute values, or whose inner HTML in the case of an
  \<open>object\<close>, matches \<open>allowedVideoRegex\<close>.
\<close>

definition isAllowedVideo :: "runtime \<Rightarrow> options \<Rightarrow> node \<Rightarrow> bool" where
  "isAllowedVideo rt opts embedNode =
     (list_ex (\<lambda>(name, v). allowedVideoRegex opts v) (attribs embedNode)
      \<or> (tagName embedNode = ''object'' \<and> allowedVideoRegex opts (html rt embedNode)))"

text \<open>
  \<open>shouldRemoveNode\<close>: the shadiness checks. Each check that fires pushes a message, and
  the node is to be removed when at least one has fired.
\<close>

definition shouldRemoveNode ::
  "options \<Rightarrow> bool \<Rightarrow> bool \<Rightarrow> int \<Rightarrow> nat \<Rightarrow> nat \<Rightarrow> int \<Rightarrow> nat \<Rightarrow> number \<Rightarrow> nat \<Rightarrow> number
     \<Rightarrow> number \<Rightarrow> nat \<Rightarrow> bool" where
  "shouldRemoveNode opts isList isFigureChild weight p img li input headingDensity contentLength
      linkDensity textDensity embedCount =
     ((\<not> isFigureChild \<and> img > 1 \<and> num_lt (num_div (of_count p) (of_count img)) (to_number (1 / 2)))
      \<or> (\<not> isList \<and> li > int p)
      \<or> num_gt (of_count input) (num_floor (num_div (of_count p) (Num 3)))
      \<or> (\<not> isList \<and> \<not> isFigureChild \<and> num_lt headingDensity (to_number (9 / 10))
          \<and> contentLength < 25 \<and> (img = 0 \<or> img > 2) \<and> num_gt linkDensity (Num 0))
      \<or> (\<not> isList \<and> weight < 25
          \<and> num_gt linkDensity (num_add (to_number (2 / 10)) (linkDensityModifier opts)))
      \<or> (weight \<ge> 25
          \<and> num_gt linkDensity (num_add (to_number (5 / 10)) (linkDensityModifier opts)))
      \<or> ((embedCount = 1 \<and> contentLength < 75) \<or> embedCount > 1)
      \<or> (img = 0 \<and> num_eq textDensity (Num 0)))"

text \<open>
  The callback that \<open>cleanConditionally\<close> hands to \<open>removeNodes\<close>; \<open>True\<close> removes the node.
  \<open>ancestors\<close> is the chain of parents of the node.
\<close>

definition cleanConditionally_remove ::
  "runtime \<Rightarrow> options \<Rightarrow> 32 word \<Rightarrow> string \<Rightarrow> node list \<Rightarrow> node \<Rightarrow> bool" where
  "cleanConditionally_remove rt opts flags tag ancestors node =
     (if tag = ''table'' \<and> isDataTable node then False
      else if hasAncestorTag ancestors ''table'' (- 1) isDataTable then False
      else if hasAncestorTag ancestors ''code'' 3 alwaysTrue then False
      else if list_ex isDataTable (find_tags [''table''] node) then False
      else
        let isList =
              (if tag = ''ul'' \<or> tag = ''ol'' then True
               else
                 let listLength = foldl (\<lambda>n l. num_add n (of_count (length (getInnerText l True))))
                                    (Num 0) (find_tags [''ul'', ''ol''] node)
                 in num_gt (num_div listLength (of_count (length (getInnerText node True))))
                      (to_number (9 / 10)));
            weight = getClassWeight flags node;
            contentScore = 0
        in
        if weight + contentScore < 0 then True
        else
          let charCount = length (filter (\<lambda>c. c = 44) (getInnerText node True)) in
          if charCount > 10 then False
          else
            let p = length (find_tags [''p''] node);
                img = length (find_tags [''img''] node);
                li = int (length (find_tags [''li''] node)) - 100;
                input = length (find_tags [''input''] node);
                headingDensity = getTextDensity node [''h1'', ''h2'', ''h3'', ''h4'', ''h5'', ''h6''];
                embeds = find_tags [''object'', ''embed'', ''iframe''] node
            in
            if list_ex (isAllowedVideo rt opts) embeds then False
            else
              let embedCount = length embeds;
                  innerText = getInnerText node True
              in
              if adWords rt innerText \<or> loadingWords rt innerText then True
              else
                let contentLength = length innerText;
                    linkDensity = getLinkDensity node;
                    textishTags = [''span'', ''li'', ''td''] @ DIV_TO_P_ELEMS;
                    textDensity = getTextDensity node textishTags;
                    isFigureChild = hasAncestorTag ancestors ''figure'' 3 alwaysTrue;
                    haveToRemove = shouldRemoveNode opts isList isFigureChild weight p img li input
                                     headingDensity contentLength linkDensity textDensity embedCount
                in
                if isList \<and> haveToRemove then
                  (if list_ex (\<lambda>child. length (children child) > 1) (children node) then haveToRemove
                   else if img = length (find_tags [''li''] node) then False
                   else haveToRemove)
                else haveToRemove)"

text \<open>
  \<open>removeNodes($el.find(tag), fn)\<close> walks the collection backwards, so an element is judged
  after every element below it has been judged and perhaps removed. The verdict reads the
  tag and the data-table mark of the ancestors only, which no removal changes.
\<close>

fun cleanConditionally_node ::
  "runtime \<Rightarrow> options \<Rightarrow> 32 word \<Rightarrow> string \<Rightarrow> node list \<Rightarrow> node \<Rightarrow> node list" where
  "cleanConditionally_node rt opts flags tag ancestors (Element t a d ks) =
     (let ks' = concat (map (cleanConditionally_node rt opts flags tag (Element t a d ks # ancestors)) ks)
      in if t = tag \<and> cleanConditionally_remove rt opts flags tag ancestors (Element t a d ks')
         then [] else [Element t a d ks'])"
| "cleanConditionally_node rt opts flags tag ancestors n = [n]"

definition cleanConditionally ::
  "runtime \<Rightarrow> options \<Rightarrow> 32 word \<Rightarrow> node list \<Rightarrow> node \<Rightarrow> string \<Rightarrow> node" where
  "cleanConditionally rt opts flags ancestors el tag =
     (if \<not> flagIsActive flags FLAG_CLEAN_CONDITIONALLY then el
      else case el of
        Element t a d ks \<Rightarrow>
          Element t a d (concat (map (cleanConditionally_node rt opts flags tag (el # ancestors)) ks))
      | _ \<Rightarrow> el)"

section \<open>Metadata (unescapeHtmlEntities.ts, Readability.getJSONLD, Readability.getArticleMetadata)\<close>

text \<open>
  The first \<open>replace\<close> of \<open>unescapeHtmlEntities\<close>: the five named entities. \<open>skip\<close> counts
  the units of a match that are still to be passed over.
\<close>

fun unescape_named :: "nat \<Rightarrow> jstring \<Rightarrow> jstring" where
  "unescape_named skip [] = []"
| "unescape_named (Suc k) (c # cs) = unescape_named k cs"
| "unescape_named 0 (c # cs) =
     (if startsWith (c # cs) (js ''&quot;'') then 34 # unescape_named 5 cs
      else if startsWith (c # cs) (js ''&amp;'') then 38 # unescape_named 4 cs
      else if startsWith (c # cs) (js ''&apos;'') then 39 # unescape_named 5 cs
      else if startsWith (c # cs) (js ''&lt;'') then 60 # unescape_named 3 cs
      else if startsWith (c # cs) (js ''&gt;'') then 62 # unescape_named 3 cs
      else c # unescape_named 0 cs)"

definition is_hex_digit :: "nat \<Rightarrow> bool" where
  "is_hex_digit c = (is_digit c \<or> (65 \<le> c \<and> c \<le> 70) \<or> (97 \<le> c \<and> c \<le> 102))"

definition hex_value :: "jstring \<Rightarrow> nat" where
  "hex_value ds = foldl (\<lambda>v c. 16 * v + (if is_digit c then c - 48 else if c \<ge> 97 then c - 87 else c - 55)) 0 ds"

definition dec_value :: "jstring \<Rightarrow> nat" where
  "dec_value ds = foldl (\<lambda>v c. 10 * v + (c - 48)) 0 ds"

text \<open>The class \<open>[0-9a-z]\<close> under the flag \<open>i\<close>: digits and ASCII letters.\<close>

definition is_alphanumeric :: "nat \<Rightarrow> bool" where
  "is_alphanumeric c = (is_digit c \<or> (65 \<le> c \<and> c \<le> 90) \<or> (97 \<le> c \<and> c \<le> 122))"

text \<open>
  \<open>parseInt(s, 16)\<close> for a string of digits and letters: a leading \<open>0x\<close> or \<open>0X\<close> is
  skipped, then comes the longest run of hexadecimal digits; \<open>None\<close> is \<open>NaN\<close>.
\<close>

definition parseInt16 :: "jstring \<Rightarrow> nat option" where
  "parseInt16 s =
     (let u = (if startsWith s [48, 120] \<or> startsWith s [48, 88] then drop 2 s else s);
          ds = takeWhile is_hex_digit u
      in if ds = [] then None else Some (hex_value ds))"

text \<open>\<open>String.fromCharCode\<close>: the number modulo \<open>2 ^ 16\<close> as one unit, the unit 0 for \<open>NaN\<close>.\<close>

definition fromCharCode :: "nat option \<Rightarrow> jstring" where
  "fromCharCode num = (case num of None \<Rightarrow> [0] | Some n \<Rightarrow> [n mod 65536])"

text \<open>
  A match of \<open>/&#(?:x([0-9a-z]{1,4})|([0-9]{1,4}));/gi\<close> at the head of the string: the
  number that the callback parses, and the length of the match. After \<open>&#x\<close> the run of
  digits and letters must have one to four units and end at a semicolon; so must,
  otherwise, the run of digits after \<open>&#\<close>.
\<close>

definition numeric_ref :: "jstring \<Rightarrow> (nat option \<times> nat) option" where
  "numeric_ref s =
     (if \<not> startsWith s (js ''&#'') then None
      else
        let r = drop 2 s;
            hx = (if r \<noteq> [] \<and> (hd r = 120 \<or> hd r = 88) then takeWhile is_alphanumeric (tl r) else []);
            dc = takeWhile is_digit r
        in if hx \<noteq> [] \<and> length hx \<le> 4 \<and> startsWith (drop (length hx) (tl r)) [59]
             then Some (parseInt16 hx, 4 + length hx)
           else if dc \<noteq> [] \<and> length dc \<le> 4 \<and> startsWith (drop (length dc) r) [59]
             then Some (Some (dec_value dc), 3 + length dc)
           else None)"

fun unescape_numeric :: "nat \<Rightarrow> jstring \<Rightarrow> jstring" where
  "unescape_numeric skip [] = []"
| "unescape_numeric (Suc k) (c # cs) = unescape_numeric k cs"
| "unescape_numeric 0 (c # cs) =
     (case numeric_ref (c # cs) of
        None \<Rightarrow> c # unescape_numeric 0 cs
      | Some (num, len) \<Rightarrow> fromCharCode num @ unescape_numeric (len - 1) cs)"

definition unescapeHtmlEntities :: "jstring option \<Rightarrow> jstring option" where
  "unescapeHtmlEntities str =
     (if \<not> truthy str then str
      else Some (unescape_numeric 0 (unescape_named 0 (the str))))"

record metadata =
  m_title :: "jstring option"
  m_byline :: "jstring option"
  m_excerpt :: "jstring option"
  m_siteName :: "jstring option"
  m_publishedTime :: "jstring option"
  m_datePublished :: "jstring option"

definition empty_metadata :: metadata where
  "empty_metadata = \<lparr> m_title = None, m_byline = None, m_excerpt = None, m_siteName = None,
     m_publishedTime = None, m_datePublished = None \<rparr>"

text \<open>
  The pattern units are ASCII and the flag is \<open>i\<close> alone: a literal is matched by lowering
  the subject on ASCII. \<open>strip_ci w s\<close> is what follows the literal \<open>w\<close> at the head of \<open>s\<close>.
\<close>

definition strip_ci :: "string \<Rightarrow> jstring \<Rightarrow> jstring option" where
  "strip_ci w s =
     (if map ascii_lower (take (length w) s) = js w then Some (drop (length w) s) else None)"

text \<open>
  \<open>propertyPattern\<close>, matched at the head of the string without the leading \<open>\s*\<close>: the
  lower-case name \<open>prefix:key\<close> of the match, which is what remains of \<open>matches[0]\<close> once it
  is lowered and its whitespace removed.
\<close>

definition property_at :: "jstring \<Rightarrow> jstring option" where
  "property_at s =
     (case concat (map (\<lambda>p.
             case strip_ci p s of
               None \<Rightarrow> []
             | Some r1 \<Rightarrow>
                (case dropWhile is_space r1 of
                   [] \<Rightarrow> []
                 | c # r2 \<Rightarrow>
                    if c \<noteq> 58 then []
                    else concat (map (\<lambda>k.
                           case strip_ci k (dropWhile is_space r2) of
                             None \<Rightarrow> []
                           | Some r3 \<Rightarrow> [js p @ [58] @ js k])
                         [''author'', ''creator'', ''description'', ''published_time'', ''title'', ''site_name''])))
             [''article'', ''dc'', ''dcterm'', ''og'', ''twitter''])
      of [] \<Rightarrow> None | n # ns \<Rightarrow> Some n)"

text \<open>\<open>elementProperty.match(propertyPattern)\<close>: the leftmost match, if there is one.\<close>

fun propertyPattern :: "jstring \<Rightarrow> jstring option" where
  "propertyPattern [] = None"
| "propertyPattern (c # cs) =
     (case property_at (c # cs) of Some n \<Rightarrow> Some n | None \<Rightarrow> propertyPattern cs)"

definition name_key_end :: "jstring \<Rightarrow> bool" where
  "name_key_end s =
     list_ex (\<lambda>k. case strip_ci k s of None \<Rightarrow> False | Some r \<Rightarrow> dropWhile is_space r = [])
       [''author'', ''creator'', ''pub-date'', ''description'', ''title'', ''site_name'']"

definition namePattern :: "jstring \<Rightarrow> bool" where
  "namePattern s =
     (let t = dropWhile is_space s in
      name_key_end t
      \<or> list_ex (\<lambda>p.
           case strip_ci p t of
             None \<Rightarrow> False
           | Some r1 \<Rightarrow>
              (case dropWhile is_space r1 of
                 [] \<Rightarrow> False
               | c # r2 \<Rightarrow> (c = 45 \<or> c = 46 \<or> c = 58) \<and> name_key_end (dropWhile is_space r2)))
           [''dc'', ''dcterm'', ''og'', ''twitter'', ''parsely'', ''weibo:article'', ''weibo:webpage''])"

text \<open>
  The scan of the \<open>meta\<close> elements: \<open>values\<close> as the list of its assignments, the latest
  first, so that a look-up finds the assignment that stands.
\<close>

definition meta_value :: "(jstring \<times> jstring) list \<Rightarrow> node \<Rightarrow> (jstring \<times> jstring) list" where
  "meta_value vals el =
     (let elementName = attr el ''name'';
          elementProperty = attr el ''property'';
          content = attr el ''content''
      in if \<not> truthy content then vals
         else
           let matches = (if truthy elementProperty then propertyPattern (the elementProperty) else None)
           in case matches of
                Some name \<Rightarrow> (name, trim (the content)) # vals
              | None \<Rightarrow>
                  if truthy elementName \<and> namePattern (the elementName)
                  then (map (\<lambda>c. if c = 46 then 58 else c)
                          (filter (\<lambda>c. \<not> is_space c) (map ascii_lower (the elementName))),
                        trim (the content)) # vals
                  else vals)"

text \<open>\<open>a || b || ...\<close>: the first truthy operand, the last operand when there is none.\<close>

fun first_truthy :: "jstring option list \<Rightarrow> jstring option" where
  "first_truthy [] = None"
| "first_truthy [x] = x"
| "first_truthy (x # y # ys) = (if truthy x then x else first_truthy (y # ys))"

text \<open>
  One pass of the body of the loop of \<open>grabArticle\<close>, from the pruning traversal to the
  end of \<open>prepArticle\<close>, leaves behind: \<open>$articleContent\<close>; whether a top candidate had to
  be created; where that top candidate sits inside \<open>$articleContent\<close> (the indices of the
  children to follow; \<open>None\<close> when it is not inside any more); the nodes whose \<open>dir\<close>
  attribute is consulted (the parent of the top candidate, the top candidate, the
  ancestors of the parent); the byline and language fields of the instance; and the
  document as the pass has left it.
\<close>

record build =
  b_article :: node
  b_needed :: bool
  b_top :: "nat list option"
  b_dirNodes :: "node list"
  b_byline :: "jstring option"
  b_lang :: "jstring option"
  b_doc :: node

text \<open>
  The stages of the pipeline that the claims do not speak about are parameters, so that
  every theorem holds whatever they compute. \<open>getArticleTitle\<close> is the title heuristic;
  \<open>parseJsonLd\<close> is the body of the loop of \<open>getJSONLD\<close> for one script (\<open>None\<close> when it
  returns early or \<open>JSON.parse\<close> throws); \<open>replaceBrs\<close> is the transform of replaceBrs.ts;
  \<open>buildArticle\<close> is one pass as described above, a function of the options, the flags,
  the title, byline and language fields and the document. It reads the flags and cannot
  write them, as in the source, where only the end of the loop body calls \<open>removeFlag\<close>.
\<close>

record stages =
  getArticleTitle :: "node \<Rightarrow> jstring"
  parseJsonLd :: "node \<Rightarrow> node \<Rightarrow> metadata option"
  replaceBrs :: "node \<Rightarrow> node"
  buildArticle :: "options \<Rightarrow> 32 word \<Rightarrow> jstring option \<Rightarrow> jstring option \<Rightarrow> jstring option
                     \<Rightarrow> node \<Rightarrow> build"

text \<open>
  \<open>getJSONLD\<close>: every script of type \<open>application/ld+json\<close> that passes the checks resets
  the metadata, so the last one stands; without any the result is the empty object.
\<close>

definition getJSONLD :: "stages \<Rightarrow> node \<Rightarrow> metadata" where
  "getJSONLD sg doc =
     foldl (\<lambda>md script. case parseJsonLd sg doc script of None \<Rightarrow> md | Some m \<Rightarrow> m)
       empty_metadata
       (filter (\<lambda>e. attr e ''type'' = Some (js ''application/ld+json'')) (find_tags [''script''] doc))"

definition getArticleMetadata :: "stages \<Rightarrow> node \<Rightarrow> metadata \<Rightarrow> metadata" where
  "getArticleMetadata sg doc jsonld =
     (let vals = foldl meta_value [] (find_tags [''meta''] doc);
          v = (\<lambda>k. map_of vals (js k));
          title0 = first_truthy [m_title jsonld, v ''dc:title'', v ''dcterm:title'', v ''og:title'',
                     v ''weibo:article:title'', v ''weibo:webpage:title'', v ''title'',
                     v ''twitter:title'', v ''parsely-title''];
          title1 = (if \<not> truthy title0 then Some (getArticleTitle sg doc) else title0);
          byline = first_truthy [m_byline jsonld, v ''dc:creator'', v ''dcterm:creator'', v ''author'',
                     v ''parsely-author''];
          excerpt = first_truthy [m_excerpt jsonld, v ''dc:description'', v ''dcterm:description'',
                     v ''og:description'', v ''weibo:article:description'',
                     v ''weibo:webpage:description'', v ''description'', v ''twitter:description''];
          siteName = first_truthy [m_siteName jsonld, v ''og:site_name''];
          publishedTime = first_truthy [m_datePublished jsonld, v ''article:published_time'',
                     v ''parsely-pub-date'', None]
      in \<lparr> m_title = unescapeHtmlEntities title1,
           m_byline = unescapeHtmlEntities byline,
           m_excerpt = unescapeHtmlEntities excerpt,
           m_siteName = unescapeHtmlEntities siteName,
           m_publishedTime = unescapeHtmlEntities publishedTime,
           m_datePublished = None \<rparr>)"

section \<open>Bulk removal and renaming (dom.ts)\<close>

text \<open>
  \<open>removeComments(node)\<close>, as what takes the place of the node among the children of its
  parent: nothing when the node is removed. The first branch needs the type \<open>tag\<close> or
  \<open>root\<close>; the second removes comments, directives and CDATA sections; a node of another
  type is left alone.
\<close>

fun removeComments :: "node \<Rightarrow> node list" where
  "removeComments (Element t a d ks) =
     (if nodeType (Element t a d ks) = ''tag'' then [Element t a d (concat (map removeComments ks))]
      else [Element t a d ks])"
| "removeComments (Root ks) = [Root (concat (map removeComments ks))]"
| "removeComments (Comment s) = []"
| "removeComments (Directive s) = []"
| "removeComments (CData ks) = []"
| "removeComments (Text s) = [Text s]"

text \<open>
  The actual arguments of a call. \<open>removeComments\<close> has the one parameter \<open>node\<close>, which
  receives the first actual argument; further arguments are dropped. The function object
  of the cheerio API has no property \<open>type\<close>, so with it as \<open>node\<close> neither branch is
  taken and the document stays as it is.
\<close>

datatype actual = ApiObject | RootNode

definition removeComments_call :: "actual list \<Rightarrow> node \<Rightarrow> node" where
  "removeComments_call args doc =
     (case args of
        RootNode # rest \<Rightarrow> (case removeComments doc of [r] \<Rightarrow> r | _ \<Rightarrow> doc)
      | _ \<Rightarrow> doc)"

text \<open>
  \<open>removeNodes($node.find(tags))\<close> without a filter removes every element with one of the
  tags that selection reaches below the node.
\<close>

fun removeNodes_node :: "string list \<Rightarrow> node \<Rightarrow> node list" where
  "removeNodes_node tags (Element t a d ks) =
     (if t \<in> set tags then [] else [Element t a d (concat (map (removeNodes_node tags) ks))])"
| "removeNodes_node tags n = [n]"

definition removeNodes :: "string list \<Rightarrow> node \<Rightarrow> node" where
  "removeNodes tags doc =
     (case doc of
        Root ks \<Rightarrow> Root (concat (map (removeNodes_node tags) ks))
      | Element t a d ks \<Rightarrow> Element t a d (concat (map (removeNodes_node tags) ks))
      | _ \<Rightarrow> doc)"

text \<open>\<open>replaceNodeTags($node.find(from).toArray(), to)\<close>\<close>

fun renameTags :: "string \<Rightarrow> string \<Rightarrow> node \<Rightarrow> node" where
  "renameTags from to (Element t a d ks) =
     Element (if t = from then to else t) a d (map (renameTags from to) ks)"
| "renameTags from to n = n"

definition replaceNodeTags :: "string \<Rightarrow> string \<Rightarrow> node \<Rightarrow> node" where
  "replaceNodeTags from to doc =
     (case doc of
        Root ks \<Rightarrow> Root (map (renameTags from to) ks)
      | Element t a d ks \<Rightarrow> Element t a d (map (renameTags from to) ks)
      | _ \<Rightarrow> doc)"

section \<open>The retry loop (Readability.grabArticle)\<close>

text \<open>The fields of the instance that outlive a pass.\<close>

record rstate =
  articleTitle :: "jstring option"
  articleByline :: "jstring option"
  articleDir :: "jstring option"
  articleLang :: "jstring option"
  attempts :: "(node \<times> nat) list"
  flags :: "32 word"

definition initial_state :: rstate where
  "initial_state = \<lparr> articleTitle = None, articleByline = None, articleDir = None,
     articleLang = None, attempts = [],
     flags = FLAG_STRIP_UNLIKELYS OR FLAG_WEIGHT_CLASSES OR FLAG_CLEAN_CONDITIONALLY \<rparr>"

text \<open>\<open>$el.attr(name, value)\<close> and \<open>$el.removeAttr(name)\<close> on the attributes of one element.\<close>

fun setAttr :: "string \<Rightarrow> jstring \<Rightarrow> (string \<times> jstring) list \<Rightarrow> (string \<times> jstring) list" where
  "setAttr name v [] = [(name, v)]"
| "setAttr name v ((k, w) # rest) = (if k = name then (k, v) # rest else (k, w) # setAttr name v rest)"

definition removeAttr :: "string \<Rightarrow> (string \<times> jstring) list \<Rightarrow> (string \<times> jstring) list" where
  "removeAttr name as = filter (\<lambda>(k, w). k \<noteq> name) as"

fun with_attr :: "string \<Rightarrow> jstring \<Rightarrow> node \<Rightarrow> node" where
  "with_attr name v (Element t a d ks) = Element t (setAttr name v a) d ks"
| "with_attr name v n = n"

text \<open>The node at the end of a path of child indices, rewritten in place.\<close>

fun update_at :: "nat list \<Rightarrow> (node \<Rightarrow> node) \<Rightarrow> node \<Rightarrow> node" where
  "update_at [] f n = f n"
| "update_at (i # path) f (Element t a d ks) =
     (if i < length ks then Element t a d (ks[i := update_at path f (ks ! i)]) else Element t a d ks)"
| "update_at (i # path) f n = n"

text \<open>
  The paging step at the end of a pass. With a created top candidate the identifier and
  the class go onto that node, wherever it is; otherwise a new \<open>div\<close> receives them, takes
  over the contents of \<open>$articleContent\<close> and becomes its only child.
\<close>

definition pageWrap :: "build \<Rightarrow> node" where
  "pageWrap b =
     (if b_needed b then
        (case b_top b of
           None \<Rightarrow> b_article b
         | Some path \<Rightarrow>
             update_at path (\<lambda>topCandidate.
               with_attr ''class'' (js ''page'') (with_attr ''id'' (js ''readability-page-1'') topCandidate))
               (b_article b))
      else
        (case b_article b of
           Element t a d ks \<Rightarrow>
             Element t a d
               [Element ''div'' [(''id'', js ''readability-page-1''), (''class'', js ''page'')] None ks]
         | n \<Rightarrow> n))"

text \<open>
  \<open>ancestors.some(...)\<close>: the first element with a truthy \<open>dir\<close> attribute sets the
  direction; without one the field keeps its value.
\<close>

definition setDir :: "node list \<Rightarrow> rstate \<Rightarrow> rstate" where
  "setDir nodes st =
     (case filter (\<lambda>n. nodeType n = ''tag'' \<and> truthy (attr n ''dir'')) nodes of
        [] \<Rightarrow> st
      | n # ns \<Rightarrow> st\<lparr>articleDir := attr n ''dir''\<rparr>)"

text \<open>
  \<open>this.attempts.sort((a, b) => b.textLength - a.textLength)\<close>: descending by length, and
  stable.
\<close>

definition sortAttempts :: "(node \<times> nat) list \<Rightarrow> (node \<times> nat) list" where
  "sortAttempts as = sort_key (\<lambda>(a, l). - int l) as"

text \<open>The number of the three flags that are still set: what the loop consumes.\<close>

definition activeFlags :: "32 word \<Rightarrow> nat" where
  "activeFlags f = (if bit f 0 then 1 else 0) + (if bit f 1 then 1 else 0) + (if bit f 2 then 1 else 0)"

text \<open>Clearing a flag that is set lowers the number of set flags.\<close>

lemma flag_bit0: "flagIsActive f FLAG_STRIP_UNLIKELYS \<Longrightarrow> bit f 0"
  unfolding flagIsActive_def FLAG_STRIP_UNLIKELYS_def
  by (cases "bit f 0") (simp_all add: and_one_eq mod_2_eq_odd bit_0)

lemma and_2_eq: "\<not> bit (f::32 word) 1 \<Longrightarrow> f AND 2 = 0"
  by (rule bit_eqI) (auto simp add: bit_simps)

lemma bit_4_iff: "bit (4::32 word) n \<longleftrightarrow> n = 2"
proof -
  have "(4::32 word) = 2 ^ 2" by simp
  then show ?thesis by (simp only: bit_exp_iff) auto
qed

lemma and_4_eq:
  assumes "\<not> bit (f::32 word) 2"
  shows "f AND 4 = 0"
proof (rule bit_eqI)
  fix n
  have "\<not> (bit f n \<and> bit (4::32 word) n)"
    using assms bit_4_iff [of n] by auto
  then show "bit (f AND 4) n = bit (0::32 word) n"
    by (simp add: bit_and_iff)
qed

lemma flag_bit1: "flagIsActive f FLAG_WEIGHT_CLASSES \<Longrightarrow> bit f 1"
  unfolding flagIsActive_def FLAG_WEIGHT_CLASSES_def
  by (cases "bit f 1") (simp_all add: and_2_eq)

lemma flag_bit2: "flagIsActive f FLAG_CLEAN_CONDITIONALLY \<Longrightarrow> bit f 2"
  unfolding flagIsActive_def FLAG_CLEAN_CONDITIONALLY_def
  by (cases "bit f 2") (simp_all add: and_4_eq)

lemma active_remove0: "bit f 0 \<Longrightarrow> activeFlags (removeFlag f FLAG_STRIP_UNLIKELYS) < activeFlags f"
  unfolding activeFlags_def removeFlag_def FLAG_STRIP_UNLIKELYS_def
  by (simp add: bit_simps)

lemma active_remove1: "bit f 1 \<Longrightarrow> activeFlags (removeFlag f FLAG_WEIGHT_CLASSES) < activeFlags f"
  unfolding activeFlags_def removeFlag_def FLAG_WEIGHT_CLASSES_def
  by (simp add: bit_simps)

lemma active_remove2: "bit f 2 \<Longrightarrow> activeFlags (removeFlag f FLAG_CLEAN_CONDITIONALLY) < activeFlags f"
  unfolding activeFlags_def removeFlag_def FLAG_CLEAN_CONDITIONALLY_def
  by (simp add: bit_simps)


lemma removeFlag_decreases:
  "flagIsActive f FLAG_STRIP_UNLIKELYS \<Longrightarrow> activeFlags (removeFlag f FLAG_STRIP_UNLIKELYS) < activeFlags f"
  "flagIsActive f FLAG_WEIGHT_CLASSES \<Longrightarrow> activeFlags (removeFlag f FLAG_WEIGHT_CLASSES) < activeFlags f"
  "flagIsActive f FLAG_CLEAN_CONDITIONALLY \<Longrightarrow> activeFlags (removeFlag f FLAG_CLEAN_CONDITIONALLY) < activeFlags f"
  by (erule flag_bit0 [THEN active_remove0], erule flag_bit1 [THEN active_remove1],
      erule flag_bit2 [THEN active_remove2])

text \<open>
  The loop of \<open>grabArticle\<close>. Besides the article (or \<open>null\<close>), the instance and the
  document, the model returns what the run has gone through: the flags and the document
  at the start of every pass, in order.
\<close>

function grabArticle_loop ::
  "stages \<Rightarrow> runtime \<Rightarrow> options \<Rightarrow> jstring \<Rightarrow> rstate \<Rightarrow> node
     \<Rightarrow> node option \<times> rstate \<times> node \<times> (32 word \<times> node) list" where
  "grabArticle_loop sg rt opts pageCacheHtml st doc =
     (let b = buildArticle sg opts (flags st) (articleTitle st) (articleByline st) (articleLang st) doc;
          st1 = st\<lparr>articleByline := b_byline b, articleLang := b_lang b\<rparr>;
          articleContent = pageWrap b;
          textLength = length (getInnerText articleContent True)
      in
      if num_lt (of_count textLength) (charThreshold opts) then
        (let doc' = setBodyHtml rt pageCacheHtml (b_doc b);
             st2 = st1\<lparr>attempts := attempts st1 @ [(articleContent, textLength)]\<rparr>
         in
         if flagIsActive (flags st) FLAG_STRIP_UNLIKELYS then
           (case grabArticle_loop sg rt opts pageCacheHtml
                   (st2\<lparr>flags := removeFlag (flags st) FLAG_STRIP_UNLIKELYS\<rparr>) doc'
            of (r, s, d, tr) \<Rightarrow> (r, s, d, (flags st, doc) # tr))
         else if flagIsActive (flags st) FLAG_WEIGHT_CLASSES then
           (case grabArticle_loop sg rt opts pageCacheHtml
                   (st2\<lparr>flags := removeFlag (flags st) FLAG_WEIGHT_CLASSES\<rparr>) doc'
            of (r, s, d, tr) \<Rightarrow> (r, s, d, (flags st, doc) # tr))
         else if flagIsActive (flags st) FLAG_CLEAN_CONDITIONALLY then
           (case grabArticle_loop sg rt opts pageCacheHtml
                   (st2\<lparr>flags := removeFlag (flags st) FLAG_CLEAN_CONDITIONALLY\<rparr>) doc'
            of (r, s, d, tr) \<Rightarrow> (r, s, d, (flags st, doc) # tr))
         else
           (let st3 = st2\<lparr>attempts := sortAttempts (attempts st2)\<rparr> in
            case attempts st3 of
              [] \<Rightarrow> (None, st3, doc', [(flags st, doc)])
            | (a, l) # rest \<Rightarrow>
                if l = 0 then (None, st3, doc', [(flags st, doc)])
                else (Some a, setDir (b_dirNodes b) st3, doc', [(flags st, doc)])))
      else (Some articleContent, setDir (b_dirNodes b) st1, b_doc b, [(flags st, doc)]))"
  by pat_completeness auto
termination
  by (relation "measure (\<lambda>(sg, rt, opts, h, st, doc). activeFlags (flags st))")
    (simp_all add: removeFlag_decreases)

declare grabArticle_loop.simps [simp del]

definition grabArticle :: "stages \<Rightarrow> runtime \<Rightarrow> options \<Rightarrow> rstate \<Rightarrow> node
     \<Rightarrow> node option \<times> rstate \<times> node \<times> (32 word \<times> node) list" where
  "grabArticle sg rt opts st doc = grabArticle_loop sg rt opts (bodyHtml rt doc) st doc"

section \<open>Post-processing (Readability.postProcessContent)\<close>

text \<open>
  The first loop of \<open>fixRelativeUris\<close>, over the links found below the article. A link
  is judged by its own attributes and its children as they are when its turn comes, and
  an outer link comes before the links inside it.
\<close>

fun fixLinks :: "runtime \<Rightarrow> node \<Rightarrow> node list" where
  "fixLinks rt (Element t a d ks) =
     (if t = ''a'' then
        (let href = propOf rt (Element t a d ks) ''href'' in
         if \<not> truthy href then [Element t a d (concat (map (fixLinks rt) ks))]
         else if \<not> includes_str (the href) (js ''javascript:'')
           then [Element t (setAttr ''href'' (the href) a) d (concat (map (fixLinks rt) ks))]
         else if (case ks of [k] \<Rightarrow> nodeType k = ''text'' | _ \<Rightarrow> False)
           then parseFragment rt (text_of (Element t a d ks))
         else [Element ''span'' [] None (concat (map (fixLinks rt) ks))])
      else [Element t a d (concat (map (fixLinks rt) ks))])"
| "fixLinks rt n = [n]"

text \<open>The second loop, over \<open>img, picture, figure, video, audio, source\<close>.\<close>

fun fixMedia :: "runtime \<Rightarrow> options \<Rightarrow> node \<Rightarrow> node" where
  "fixMedia rt opts (Element t a d ks) =
     (let media = Element t a d ks;
          src = propOf rt media ''src'';
          poster = propOf rt media ''poster'';
          srcset = propOf rt media ''srcset'';
          a1 = (if truthy src then setAttr ''src'' (the src) a else a);
          a2 = (if truthy poster then setAttr ''poster'' (the poster) a1 else a1);
          a3 = (if \<not> truthy (baseURI opts) \<or> \<not> truthy srcset then a2
                else setAttr ''srcset'' (absoluteSrcset rt (the (baseURI opts)) (the srcset)) a2)
      in Element t
           (if t \<in> set [''img'', ''picture'', ''figure'', ''video'', ''audio'', ''source''] then a3 else a)
           d (map (fixMedia rt opts) ks))"
| "fixMedia rt opts n = n"

definition fixRelativeUris :: "runtime \<Rightarrow> options \<Rightarrow> node \<Rightarrow> node" where
  "fixRelativeUris rt opts articleContent =
     (case articleContent of
        Element t a d ks \<Rightarrow> Element t a d (map (fixMedia rt opts) (concat (map (fixLinks rt) ks)))
      | n \<Rightarrow> n)"

text \<open>\<open>isElementWithoutContent\<close> of textUtils.ts.\<close>

definition isElementWithoutContent :: "node \<Rightarrow> bool" where
  "isElementWithoutContent element =
     (let hasNoText = (length (trim (text_of element)) = 0);
          brCount = length (find_tags [''br''] element);
          hrCount = length (find_tags [''hr''] element);
          hasOnlyBrOrHr = (length (children element) = brCount + hrCount)
      in hasNoText \<and> (length (children element) = 0 \<or> hasOnlyBrOrHr))"

text \<open>\<open>hasContent = /\S$/\<close>: the last unit is not whitespace.\<close>

definition hasContent :: "jstring \<Rightarrow> bool" where
  "hasContent s = (s \<noteq> [] \<and> \<not> is_space (last s))"

text \<open>\<open>hasSingleTagInsideElement\<close> of utils.ts.\<close>

definition hasSingleTagInsideElement :: "node \<Rightarrow> string \<Rightarrow> bool" where
  "hasSingleTagInsideElement element tag =
     (case filter (\<lambda>el. nodeType el = ''tag'') (childNodes element) of
        [c] \<Rightarrow> tagName c = tag
                 \<and> \<not> list_ex (\<lambda>n. case n of Text s \<Rightarrow> hasContent s | _ \<Rightarrow> False) (childNodes element)
      | _ \<Rightarrow> False)"

text \<open>\<open>Object.entries(node.attribs).forEach(([key, value]) => $child.attr(key, value))\<close>\<close>

fun copyAttribs :: "(string \<times> jstring) list \<Rightarrow> node \<Rightarrow> node" where
  "copyAttribs as (Element t a d ks) = Element t (foldl (\<lambda>acc (k, v). setAttr k v acc) a as) d ks"
| "copyAttribs as n = n"

fun node_count :: "node \<Rightarrow> nat" where
  "node_count (Element t a d ks) = Suc (sum_list (map node_count ks))"
| "node_count (CData ks) = Suc (sum_list (map node_count ks))"
| "node_count (Root ks) = Suc (sum_list (map node_count ks))"
| "node_count n = 1"

lemma node_count_copyAttribs: "node_count (copyAttribs as n) = node_count n"
  by (cases n) simp_all

lemma node_count_child: "k \<in> set ks \<Longrightarrow> node_count k < Suc (sum_list (map node_count ks))"
  by (induction ks) auto

lemma node_count_first_child:
  "children (Element t a d ks) = c # cs \<Longrightarrow> node_count c < Suc (sum_list (map node_count ks))"
proof -
  assume "children (Element t a d ks) = c # cs"
  then have "c \<in> set (filter isElement ks)" by (simp add: children_def)
  then have "c \<in> set ks" by simp
  then show ?thesis by (rule node_count_child)
qed

text \<open>
  The traversal of \<open>simplifyNestedElements\<close>, as what takes the place of a node among the
  children of its parent. \<open>parentIsTag\<close> says whether the parent of the node is an element
  of type \<open>tag\<close>. A \<open>div\<close> or \<open>section\<close> whose identifier does not start with
  \<open>readability\<close> is removed when it has no content, or gives way to its first child,
  which is then looked at in its place.
\<close>

function simplify_node :: "bool \<Rightarrow> node \<Rightarrow> node list" where
  "simplify_node parentIsTag (Element t a d ks) =
     (let node = Element t a d ks; idAttr = attr node ''id'' in
      if parentIsTag \<and> t \<in> set [''div'', ''section'']
         \<and> \<not> (truthy idAttr \<and> startsWith (the idAttr) (js ''readability''))
         \<and> isElementWithoutContent node
      then []
      else if parentIsTag \<and> t \<in> set [''div'', ''section'']
         \<and> \<not> (truthy idAttr \<and> startsWith (the idAttr) (js ''readability''))
         \<and> (hasSingleTagInsideElement node ''div'' \<or> hasSingleTagInsideElement node ''section'')
      then (case children node of
              [] \<Rightarrow> [node]
            | child # others \<Rightarrow> simplify_node parentIsTag (copyAttribs a child))
      else [Element t a d (concat (map (simplify_node (nodeType node = ''tag'')) ks))])"
| "simplify_node parentIsTag (Text s) = [Text s]"
| "simplify_node parentIsTag (Comment s) = [Comment s]"
| "simplify_node parentIsTag (Directive s) = [Directive s]"
| "simplify_node parentIsTag (CData ks) = [CData ks]"
| "simplify_node parentIsTag (Root ks) = [Root ks]"
  by pat_completeness auto
termination
  by (relation "measure (\<lambda>(p, n). node_count n)")
    (auto simp: node_count_copyAttribs node_count_first_child node_count_child)

definition simplifyNestedElements :: "node \<Rightarrow> node" where
  "simplifyNestedElements articleContent =
     (case simplify_node False articleContent of [r] \<Rightarrow> r | _ \<Rightarrow> articleContent)"

text \<open>\<open>cleanClasses\<close>: the classes of \<open>classesToPreserve\<close> stay, every other class goes.\<close>

fun cleanClasses :: "options \<Rightarrow> node \<Rightarrow> node" where
  "cleanClasses opts (Element t a d ks) =
     (let cls = attr (Element t a d ks) ''class'';
          className = join (js '' '')
            (filter (\<lambda>c. c \<in> set (classesToPreserve opts))
               (split_space (if truthy cls then the cls else [])))
      in Element t (if className \<noteq> [] then setAttr ''class'' className a else removeAttr ''class'' a) d
           (map (cleanClasses opts) ks))"
| "cleanClasses opts n = n"

definition postProcessContent :: "runtime \<Rightarrow> options \<Rightarrow> node option \<Rightarrow> node option" where
  "postProcessContent rt opts articleContent =
     (case articleContent of
        None \<Rightarrow> None
      | Some a \<Rightarrow>
          (let a1 = fixRelativeUris rt opts a;
               a2 = simplifyNestedElements a1
           in Some (if \<not> keepClasses opts then cleanClasses opts a2 else a2)))"

section \<open>The orchestrator (Readability.parse)\<close>

record result =
  r_title :: "jstring option"
  r_byline :: "jstring option"
  r_dir :: "jstring option"
  r_lang :: "jstring option"
  r_content :: "jstring option"
  r_textContent :: "jstring option"
  r_length :: "nat option"
  r_excerpt :: "jstring option"
  r_siteName :: "jstring option"
  r_publishedTime :: "jstring option"

datatype error = Error jstring

text \<open>A number appended to a string: its decimal digits.\<close>

fun decimal :: "nat \<Rightarrow> jstring" where
  "decimal n = (if n < 10 then [48 + n] else decimal (n div 10) @ [48 + n mod 10])"

declare decimal.simps [simp del]

text \<open>The default of the option \<open>serializer\<close>: \<open>($el) => $el?.html() || null\<close>.\<close>

definition defaultSerializer :: "runtime \<Rightarrow> node option \<Rightarrow> jstring option" where
  "defaultSerializer rt el =
     (case el of None \<Rightarrow> None | Some e \<Rightarrow> if html rt e = [] then None else Some (html rt e))"

text \<open>\<open>x || null\<close>\<close>

definition or_null :: "jstring option \<Rightarrow> jstring option" where
  "or_null x = (if truthy x then x else None)"

text \<open>
  The three removals at the head of the extraction branch, as the source calls them:
  \<open>removeComments(this.$, this.$.root()[0])\<close>, \<open>removeNodes(this.$('script, noscript'))\<close>,
  \<open>removeNodes(this.$('style'))\<close>.
\<close>

definition prePass_removals :: "node \<Rightarrow> node" where
  "prePass_removals doc =
     (let d1 = removeComments_call [ApiObject, RootNode] doc;
          d2 = removeNodes [''script'', ''noscript''] d1
      in removeNodes [''style''] d2)"

definition prePass :: "stages \<Rightarrow> node \<Rightarrow> node" where
  "prePass sg doc = replaceNodeTags ''font'' ''span'' (replaceBrs sg (prePass_removals doc))"

text \<open>
  \<open>parse\<close>. A thrown error is \<open>Inl\<close>; a returned result comes with the instance and the
  document as the call leaves them.
\<close>

definition parse ::
  "stages \<Rightarrow> runtime \<Rightarrow> options \<Rightarrow> rstate \<Rightarrow> node \<Rightarrow> error + (result \<times> rstate \<times> node)" where
  "parse sg rt opts st doc =
     (let numTags = length (find_all doc) in
      if maxElemsToParse opts > 0 \<and> int numTags > maxElemsToParse opts then
        Inl (Error (js ''Aborting parsing document; '' @ decimal numTags @ js '' elements found''))
      else
        let jsonLd = (if disableJSONLD opts then empty_metadata else getJSONLD sg doc);
            metadata = getArticleMetadata sg doc jsonLd;
            st1 = st\<lparr>articleTitle := or_null (m_title metadata)\<rparr>;
            (articleContent, st2, doc2) =
              (if extraction opts then
                 (case grabArticle sg rt opts st1 (prePass sg doc) of
                    (grabbed, s, d, passes) \<Rightarrow> (postProcessContent rt opts grabbed, s, d))
               else (None, st1, doc));
            excerpt =
              (if \<not> truthy (m_excerpt metadata) \<and> articleContent \<noteq> None then
                 (case find_tags [''p''] (the articleContent) of
                    [] \<Rightarrow> m_excerpt metadata
                  | paragraph # others \<Rightarrow> Some (trim (text_of paragraph)))
               else m_excerpt metadata);
            textContent =
              (case articleContent of None \<Rightarrow> None | Some a \<Rightarrow> or_null (Some (text_of a)))
        in Inr (\<lparr> r_title = articleTitle st2,
                  r_byline = first_truthy [m_byline metadata, articleByline st2],
                  r_dir = articleDir st2,
                  r_lang = articleLang st2,
                  r_content = serializer opts articleContent,
                  r_textContent = textContent,
                  r_length = (case textContent of None \<Rightarrow> None
                              | Some s \<Rightarrow> if length s = 0 then None else Some (length s)),
                  r_excerpt = or_null excerpt,
                  r_siteName = or_null (m_siteName metadata),
                  r_publishedTime = or_null (m_publishedTime metadata) \<rparr>,
                st2, doc2))"

section \<open>Default options\<close>

text \<open>
  \<open>videos\<close> of regexes.ts, the default of \<open>allowedVideoRegex\<close>: two slashes, perhaps
  \<open>www.\<close>, and one of eight hosts, anywhere in the string, in any case.
\<close>

definition videos :: "jstring \<Rightarrow> bool" where
  "videos s =
     (let l = map ascii_lower s in
      list_ex (\<lambda>h. includes_str l (js (''//'' @ h)) \<or> includes_str l (js (''//www.'' @ h)))
        [''dailymotion.com'', ''youtube.com'', ''youtube-nocookie.com'', ''player.vimeo.com'',
         ''v.qq.com'', ''archive.org'', ''upload.wikimedia.org'', ''player.twitch.tv''])"

text \<open>
  \<open>DEFAULT_OPTIONS\<close>. The constructor builds \<open>{ ...DEFAULT_OPTIONS, ...options }\<close>: an
  option that the caller supplies replaces the default as a whole.
\<close>

definition DEFAULT_OPTIONS :: "runtime \<Rightarrow> options" where
  "DEFAULT_OPTIONS rt =
     \<lparr> maxElemsToParse = 0, charThreshold = Num 500, keepClasses = False,
       classesToPreserve = [js ''page''], disableJSONLD = False, allowedVideoRegex = videos,
       linkDensityModifier = Num 0, extraction = True, serializer = defaultSerializer rt,
       baseURI = None \<rparr>"

section \<open>Examples\<close>

text \<open>
  The definitions by which a concrete input is evaluated: strings, trimming, inner text,
  selection and attributes.
\<close>

lemmas text_eval = js_def trim_def is_space_def getInnerText_def find_tags_def find_all_def
  attr_def Let_def

text \<open>The floor of a quotient of numerals, for the evaluation of roundings.\<close>

lemma floor_rat_numeral: "\<lfloor>(numeral a :: rat) / numeral b\<rfloor> = numeral a div numeral b"
  using floor_divide_of_int_eq [of "numeral a" "numeral b", where ?'a = rat] by simp

lemmas number_eval = to_number_def round_magnitude_def round_half_even_def scale2_def
  exponent_def signed_def num_add_def num_mul_def num_div_def num_lt_def num_gt_def
  num_eq_def num_le_def num_ge_def num_sub_def num_neg_def num_max_def num_truthy_def
  num_floor_def is_infinite_def is_zero_def of_count_def exponent_up.simps floor_rat_numeral

definition bare_hash_example :: node where
  "bare_hash_example =
     Element ''div'' [] None
       [Element ''a'' [(''href'', js ''#'')] None [Text (js ''ab'')], Text (js ''cd'')]"

definition hash_link_example :: node where
  "hash_link_example =
     Element ''div'' [] None
       [Element ''a'' [(''href'', js ''#x'')] None [Text (js ''ab'')], Text (js ''c'')]"

text \<open>
  The formula for link density in the words of the specification, with the weight read
  off \<open>hashUrl\<close>: three tenths for an anchor whose \<open>href\<close> is a hash sign followed by at
  least one unit that is not a line terminator, one for every other anchor. The products,
  the sum and the quotient are those of numbers: each is rounded, and the sum is taken
  in document order.
\<close>

definition spec_link_weight :: "node \<Rightarrow> number" where
  "spec_link_weight a =
     (case attr a ''href'' of
        Some (c # d # rest) \<Rightarrow> if c = 35 \<and> \<not> is_line_terminator d then to_number (3 / 10) else Num 1
      | _ \<Rightarrow> Num 1)"

text \<open>The sum of a list of numbers, added up from the left, starting from zero.\<close>

definition num_sum :: "number list \<Rightarrow> number" where
  "num_sum xs = foldl num_add (Num 0) xs"

definition spec_link_density :: "node \<Rightarrow> number" where
  "spec_link_density el =
     (if length (getInnerText el True) = 0 then Num 0
      else num_div
             (num_sum (map (\<lambda>a. num_mul (of_count (length (getInnerText a True))) (spec_link_weight a))
                (find_tags [''a''] el)))
             (of_count (length (getInnerText el True))))"

text \<open>
  A position below an element: the indices of the children to follow, each step from an
  element to one of its children. Selection reaches exactly the elements at such
  positions.
\<close>

fun node_at :: "nat list \<Rightarrow> node \<Rightarrow> node option" where
  "node_at [] n = Some n"
| "node_at (i # p) (Element t a d ks) = (if i < length ks then node_at p (ks ! i) else None)"
| "node_at (i # p) n = None"

text \<open>The value of \<open>_readabilityDataTable\<close> on the node at a position; \<open>None\<close> is undefined.\<close>

definition mark_at :: "nat list \<Rightarrow> node \<Rightarrow> bool option" where
  "mark_at p n = (case node_at p n of Some (Element t a d ks) \<Rightarrow> d | _ \<Rightarrow> None)"

definition single_cell_row :: node where
  "single_cell_row = Element ''tr'' [] None [Element ''td'' [] None [Text (js ''x'')]]"

definition twelve_rows :: node where
  "twelve_rows = Element ''tbody'' [] None
     [single_cell_row, single_cell_row, single_cell_row, single_cell_row,
      single_cell_row, single_cell_row, single_cell_row, single_cell_row,
      single_cell_row, single_cell_row, single_cell_row, single_cell_row]"

definition table_presentation :: node where
  "table_presentation = Element ''table'' [(''role'', js ''presentation'')] None [twelve_rows]"

definition table_single_column :: node where
  "table_single_column = Element ''table'' [] None [twelve_rows]"

definition table_caption :: node where
  "table_caption = Element ''table'' [] None
     [Element ''caption'' [] None [Element ''span'' [] None [Text (js ''t'')]]]"

text \<open>An article with the three tables, the first of them inside a \<open>div\<close>.\<close>

definition tables_article :: node where
  "tables_article =
     Element ''div'' [] None
       [Element ''div'' [] None [table_presentation], table_single_column, table_caption]"

lemmas table_eval = single_cell_row_def twelve_rows_def table_presentation_def
  table_single_column_def table_caption_def getRowAndColumnCount_def span_of_def

text \<open>
  A runtime for the examples: a serializer that writes tags, attributes and text as they
  are; case folding of the ASCII letters; properties that are the attributes (no base
  URI); a fragment parser for text without markup; a body that is not written back.
\<close>

fun plain_html :: "node \<Rightarrow> jstring" where
  "plain_html (Element t a d ks) =
     js ''<'' @ js t @ concat (map (\<lambda>(k, v). js '' '' @ js k @ js ''=\"'' @ v @ js ''\"'') a) @ js ''>''
       @ concat (map plain_html ks) @ js ''</'' @ js t @ js ''>''"
| "plain_html (Text s) = s"
| "plain_html (Comment s) = js ''<!--'' @ s @ js ''-->''"
| "plain_html (Directive s) = js ''<'' @ s @ js ''>''"
| "plain_html (CData ks) = concat (map plain_html ks)"
| "plain_html (Root ks) = concat (map plain_html ks)"

definition example_runtime :: runtime where
  "example_runtime =
     \<lparr> html = (\<lambda>n. concat (map plain_html (childNodes n))),
       canonicalize = ascii_lower,
       bodyHtml = (\<lambda>doc. concat (map (\<lambda>b. concat (map plain_html (childNodes b))) (find_tags [''body''] doc))),
       setBodyHtml = (\<lambda>s doc. doc),
       propOf = attr,
       parseFragment = (\<lambda>s. [Text s]),
       absoluteSrcset = (\<lambda>base s. s) \<rparr>"



definition werbung_div :: node where
  "werbung_div = Element ''div'' [] None [Text (js '' Werbung '')]"

definition ad_table_div_unmarked :: node where
  "ad_table_div_unmarked =
     Element ''div'' [] None
       [Element ''table'' [(''summary'', js ''s'')] None
          [Element ''tr'' [] None [Element ''td'' [] None [Text (js ''ad'')]]]]"

definition ad_table_div :: node where
  "ad_table_div =
     Element ''div'' [] None
       [Element ''table'' [(''summary'', js ''s'')] (Some True)
          [Element ''tr'' [] None [Element ''td'' [] None [Text (js ''ad'')]]]]"

lemmas flag_eval = initial_state_def flagIsActive_def FLAG_STRIP_UNLIKELYS_def
  FLAG_WEIGHT_CLASSES_def FLAG_CLEAN_CONDITIONALLY_def

lemmas weight_eval = getClassWeight_def negative_def positive_def ascii_lower_def endsWith_def

text \<open>
  Stages for the examples: no title, no JSON-LD, no \<open>br\<close> chains to replace, and the
  pass as it goes for a document without a paragraph of 25 characters: nothing is scored,
  a top candidate is created from the children of the body, and it ends as the only child
  of the article.
\<close>

definition example_stages :: stages where
  "example_stages =
     \<lparr> getArticleTitle = (\<lambda>doc. []),
       parseJsonLd = (\<lambda>doc script. None),
       replaceBrs = (\<lambda>doc. doc),
       buildArticle = (\<lambda>opts fl title byline lang doc.
         \<lparr> b_article = Element ''div'' [] None
             [Element ''div'' [] None (concat (map childNodes (find_tags [''body''] doc)))],
           b_needed = True, b_top = Some [0], b_dirNodes = [], b_byline = byline, b_lang = lang,
           b_doc = doc \<rparr>) \<rparr>"

text \<open>\<open><html><div>yo</div></html>\<close> as the HTML parser builds it, with head and body.\<close>

definition doc_yo :: node where
  "doc_yo =
     Root [Element ''html'' [] None
       [Element ''head'' [] None [],
        Element ''body'' [] None [Element ''div'' [] None [Text (js ''yo'')]]]]"

definition doc_description :: node where
  "doc_description =
     Root [Element ''html'' [] None
       [Element ''head'' [] None
          [Element ''meta'' [(''name'', js ''description''), (''content'', js ''Hello'')] None []],
        Element ''body'' [] None [Element ''p'' [] None [Text (js ''Body text'')]]]]"

definition doc_comment :: node where
  "doc_comment =
     Root [Directive (js ''!DOCTYPE html''),
       Element ''html'' [] None
         [Element ''head'' [] None
            [Element ''script'' [] None [Text (js ''var x'')],
             Element ''style'' [] None [Text (js ''p {}'')]],
          Element ''body'' [] None
            [Comment (js '' note ''),
             Element ''noscript'' [] None [Text (js ''on'')],
             Element ''p'' [] None [Text (js ''Body text'')]]]]"

text \<open>
  The ancestors of the node at a position, the parent first, given those of the element
  the position starts from; and the elements that a position passes through, from the
  child of the starting element to the node itself.
\<close>

fun chain_at :: "nat list \<Rightarrow> node list \<Rightarrow> node \<Rightarrow> node list" where
  "chain_at [] anc n = anc"
| "chain_at (i # p) anc (Element t a d ks) =
     (if i < length ks then chain_at p (Element t a d ks # anc) (ks ! i) else anc)"
| "chain_at (i # p) anc n = anc"


text \<open>The tree without the node at a position.\<close>

fun delete_at :: "nat list \<Rightarrow> node \<Rightarrow> node" where
  "delete_at [] n = n"
| "delete_at [i] (Element t a d ks) = Element t a d (take i ks @ drop (Suc i) ks)"
| "delete_at (i # j # p) (Element t a d ks) =
     (if i < length ks then Element t a d (ks[i := delete_at (j # p) (ks ! i)]) else Element t a d ks)"
| "delete_at (i # p) n = n"




definition nested_werbung :: node where
  "nested_werbung =
     Element ''div'' [] None
       [Element ''section'' [] None [werbung_div, Element ''p'' [] None [Text (js ''Some words.'')]]]"

text \<open>\<open><div><p>a</p><div>d</div></div>\<close>, whose inner text is "ad".\<close>

definition ad_in_two_parts :: node where
  "ad_in_two_parts =
     Element ''div'' [] None
       [Element ''p'' [] None [Text (js ''a'')], Element ''div'' [] None [Text (js ''d'')]]"

text \<open>
  Two nodes that an element below them cannot tell apart when it looks up: same type,
  same tag, same data-table mark.
\<close>

definition similar :: "node \<Rightarrow> node \<Rightarrow> bool" where
  "similar x y = (nodeType x = nodeType y \<and> tagName x = tagName y \<and> isDataTable x = isDataTable y)"

text \<open>The number of commas of a string.\<close>

definition commas_of :: "jstring \<Rightarrow> nat" where
  "commas_of s = length (filter (\<lambda>c. c = 44) s)"

section \<open>Text similarity: the pair of the specification\<close>

lemma tokens_breaking_news:
  "tokens (js ''Breaking News: Foo Wins'') = [js ''breaking'', js ''news'', js ''foo'', js ''wins'']"
  by (simp add: tokens_def split_nonword_def toLowerCase_def ascii_lower_def is_word_char_def js_def)

lemma tokens_foo_wins: "tokens (js ''Foo Wins'') = [js ''foo'', js ''wins'']"
  by (simp add: tokens_def split_nonword_def toLowerCase_def ascii_lower_def is_word_char_def js_def)

lemma textSimilarity_pair:
  "textSimilarity (js ''Breaking News: Foo Wins'') (js ''Foo Wins'') = Num 1"
proof -
  have "filter (\<lambda>token. token \<notin> set (tokens (js ''Breaking News: Foo Wins''))) (tokens (js ''Foo Wins'')) = []"
    by (simp add: tokens_breaking_news tokens_foo_wins)
  moreover have "length (join (js '' '') (tokens (js ''Foo Wins''))) = 8"
    by (simp add: tokens_foo_wins) (simp add: js_def)
  moreover have "num_sub (Num 1) (num_div (of_count 0) (of_count 8)) = Num 1"
    by (simp add: number_eval)
  ultimately show ?thesis
    by (simp add: textSimilarity_def Let_def tokens_breaking_news tokens_foo_wins)
qed

text \<open>
  C9, as the code has it: text similarity lowers both strings, splits them on \<open>\W+\<close> and
  returns 1 minus the joined length of the tokens of the second string that are missing
  from the first, divided by the joined length of all tokens of the second string. For
  the pair "Breaking News: Foo Wins", "Foo Wins" both tokens of the second string, \<open>foo\<close>
  and \<open>wins\<close>, occur among the tokens of the first: nothing is missing, and the result is
  exactly 1.
\<close>

theorem textSimilarity_breaking_news:
  "tokens (js ''Breaking News: Foo Wins'') = [js ''breaking'', js ''news'', js ''foo'', js ''wins'']
   \<and> tokens (js ''Foo Wins'') = [js ''foo'', js ''wins'']
   \<and> filter (\<lambda>token. token \<notin> set (tokens (js ''Breaking News: Foo Wins''))) (tokens (js ''Foo Wins'')) = []
   \<and> textSimilarity (js ''Breaking News: Foo Wins'') (js ''Foo Wins'') = Num 1"
  by (simp add: tokens_breaking_news tokens_foo_wins textSimilarity_pair)

text \<open>
  C9 as stated fails: on that pair the result is 1, which is not within a tenth of 0.57.
\<close>

theorem textSimilarity_breaking_news_counterexample:
  "finite_value (textSimilarity (js ''Breaking News: Foo Wins'') (js ''Foo Wins'')) = Some 1
   \<and> \<not> \<bar>the (finite_value (textSimilarity (js ''Breaking News: Foo Wins'') (js ''Foo Wins''))) - 57 / 100\<bar>
         < 1 / 10"
  by (simp add: textSimilarity_pair)

section \<open>Link density\<close>

lemma coefficient_spec: "coefficient a = spec_link_weight a"
proof (cases "attr a ''href''")
  case None
  then show ?thesis by (simp add: coefficient_def spec_link_weight_def)
next
  case (Some h)
  show ?thesis
  proof (cases h)
    case Nil
    with Some show ?thesis by (simp add: coefficient_def spec_link_weight_def)
  next
    case (Cons c t)
    with Some show ?thesis
      by (cases t) (simp_all add: coefficient_def spec_link_weight_def)
  qed
qed

lemma to_number_three_tenths: "to_number (3 / 10) = Num (5404319552844595 / 18014398509481984)"
  by (simp add: number_eval)

lemma hash_link_parts:
  "find_tags [''a''] hash_link_example = [Element ''a'' [(''href'', js ''#x'')] None [Text (js ''ab'')]]"
  "length (getInnerText hash_link_example True) = 3"
  "length (getInnerText (Element ''a'' [(''href'', js ''#x'')] None [Text (js ''ab'')]) True) = 2"
  "coefficient (Element ''a'' [(''href'', js ''#x'')] None [Text (js ''ab'')]) = to_number (3 / 10)"
  by (simp_all add: hash_link_example_def coefficient_def is_line_terminator_def text_eval)

lemma bare_hash_parts:
  "find_tags [''a''] bare_hash_example = [Element ''a'' [(''href'', js ''#'')] None [Text (js ''ab'')]]"
  "length (getInnerText bare_hash_example True) = 4"
  "length (getInnerText (Element ''a'' [(''href'', js ''#'')] None [Text (js ''ab'')]) True) = 2"
  "coefficient (Element ''a'' [(''href'', js ''#'')] None [Text (js ''ab'')]) = Num 1"
  by (simp_all add: bare_hash_example_def coefficient_def text_eval)

lemma link_density_hash_link:
  "getLinkDensity hash_link_example = Num (7205759403792793 / 36028797018963968)"
proof -
  have "num_div (num_add (Num 0) (num_mul (of_count 2) (to_number (3 / 10)))) (of_count 3)
          = Num (7205759403792793 / 36028797018963968)"
    by (simp add: number_eval)
  then show ?thesis
    by (simp add: getLinkDensity_def hash_link_parts)
qed

lemma link_density_bare_hash: "getLinkDensity bare_hash_example = Num (1 / 2)"
proof -
  have "num_div (num_add (Num 0) (num_mul (of_count 2) (Num 1))) (of_count 4) = Num (1 / 2)"
    by (simp add: number_eval)
  then show ?thesis
    by (simp add: getLinkDensity_def bare_hash_parts)
qed

text \<open>
  C8, as the code has it: for every element the link density is the sum, over the anchors
  below it in document order, of the length of the anchor's text times its weight,
  divided by the length of the element's text, and 0 when the element has no text; the
  weight is 0.3 exactly for an anchor whose \<open>href\<close> is a hash sign followed by at least
  one unit that is not a line terminator, and 1 for every other anchor, one with the
  \<open>href\<close> "#" included. The arithmetic is that of doubles: every product, every partial
  sum and the quotient are rounded.
\<close>

theorem getLinkDensity_formula: "getLinkDensity el = spec_link_density el"
  by (simp add: getLinkDensity_def spec_link_density_def num_sum_def Let_def foldl_map
      coefficient_spec)

theorem getLinkDensity_formula_witness:
  "getLinkDensity hash_link_example = spec_link_density hash_link_example
   \<and> spec_link_density hash_link_example = Num (7205759403792793 / 36028797018963968)
   \<and> getLinkDensity bare_hash_example = spec_link_density bare_hash_example
   \<and> spec_link_density bare_hash_example = Num (1 / 2)"
  using getLinkDensity_formula [of hash_link_example] getLinkDensity_formula [of bare_hash_example]
  by (simp add: link_density_hash_link link_density_bare_hash)

text \<open>
  C8 as stated fails for an anchor whose \<open>href\<close> is exactly "#": in
  \<open><div><a href="#">ab</a>cd</div>\<close> the anchor counts in full, the density is 2/4, and
  not the 0.3 * 2 / 4 of the claim, neither as a double nor as a fraction. It also fails
  as an equation between exact quantities: in \<open><div><a href="#x">ab</a>c</div>\<close> the weight
  is 0.3, and the density is the double 0.19999999999999998, not the fifth that
  0.3 * 2 / 3 is.
\<close>

theorem getLinkDensity_bare_hash_counterexample:
  "find_tags [''a''] bare_hash_example = [Element ''a'' [(''href'', js ''#'')] None [Text (js ''ab'')]]
   \<and> length (getInnerText bare_hash_example True) = 4
   \<and> getLinkDensity bare_hash_example = Num (1 / 2)
   \<and> num_div (num_mul (of_count 2) (to_number (3 / 10))) (of_count 4)
        = Num (5404319552844595 / 36028797018963968)
   \<and> getLinkDensity bare_hash_example \<noteq> num_div (num_mul (of_count 2) (to_number (3 / 10))) (of_count 4)
   \<and> finite_value (getLinkDensity bare_hash_example) \<noteq> Some (2 * (3 / 10) / 4)
   \<and> find_tags [''a''] hash_link_example = [Element ''a'' [(''href'', js ''#x'')] None [Text (js ''ab'')]]
   \<and> length (getInnerText hash_link_example True) = 3
   \<and> getLinkDensity hash_link_example = Num (7205759403792793 / 36028797018963968)
   \<and> finite_value (getLinkDensity hash_link_example) \<noteq> Some (2 * (3 / 10) / 3)"
proof -
  have "num_div (num_mul (of_count 2) (to_number (3 / 10))) (of_count 4)
        = Num (5404319552844595 / 36028797018963968)"
    by (simp add: number_eval)
  then show ?thesis
    by (simp add: link_density_hash_link link_density_bare_hash hash_link_parts bare_hash_parts)
qed

section \<open>Data tables\<close>

text \<open>The marking keeps every node where it is and writes the verdict onto the tables.\<close>

lemma node_at_markDataTables_node:
  "node_at p n = Some (Element t a d ks) \<Longrightarrow>
     node_at p (markDataTables_node n)
       = Some (Element t a (if t = ''table'' then Some (markDataTable (Element t a d ks)) else d)
           (map markDataTables_node ks))"
proof (induction p arbitrary: n)
  case Nil
  then show ?case by simp
next
  case (Cons i p)
  then show ?case by (cases n) (auto split: if_splits)
qed

lemma mark_at_markDataTables:
  assumes "node_at p el = Some tbl" and "p \<noteq> []" and "tagName tbl = ''table''"
  shows "mark_at p (markDataTables el) = Some (markDataTable tbl)"
proof -
  from assms(3) obtain a d ks where tbl: "tbl = Element ''table'' a d ks"
    by (cases tbl) auto
  from assms(2) obtain i q where p: "p = i # q" by (cases p) auto
  from assms(1) p obtain t' a' d' ks' where el: "el = Element t' a' d' ks'"
    by (cases el) auto
  from assms(1) p el have i: "i < length ks'" and q: "node_at q (ks' ! i) = Some tbl"
    by (auto split: if_splits)
  from q tbl have "node_at q (markDataTables_node (ks' ! i))
      = Some (Element ''table'' a (Some (markDataTable tbl)) (map markDataTables_node ks))"
    using node_at_markDataTables_node [of q "ks' ! i" "''table''" a d ks] by simp
  with i show ?thesis by (simp add: mark_at_def p el)
qed

text \<open>
  C7: the classifier of data tables, \<open>markDataTables\<close>, sets \<open>_readabilityDataTable\<close> on
  every table below the element it is given. A table with \<open>role="presentation"\<close> receives
  false. A table that no earlier rule decides (no such role, no \<open>datatable="0"\<close>, no
  summary, no caption with an element, none of \<open>col, colgroup, tfoot, thead, th\<close>, no
  nested table) and that has exactly one column receives false, however many rows it has:
  the single-column rule comes before the rule for ten rows or more. A table with an
  element inside a caption, such as \<open><caption><span>t</span></caption>\<close>, and neither
  \<open>role="presentation"\<close> nor \<open>datatable="0"\<close> receives true.
\<close>

theorem markDataTables_cases:
  assumes "node_at p el = Some tbl" and "p \<noteq> []" and "tagName tbl = ''table''"
  shows "(attr tbl ''role'' = Some (js ''presentation'') \<longrightarrow> mark_at p (markDataTables el) = Some False)
   \<and> (attr tbl ''role'' \<noteq> Some (js ''presentation'') \<and> attr tbl ''datatable'' \<noteq> Some (js ''0'')
        \<and> \<not> truthy (attr tbl ''summary'')
        \<and> concat (map find_all (find_tags [''caption''] tbl)) = []
        \<and> find_tags [''col'', ''colgroup'', ''tfoot'', ''thead'', ''th''] tbl = []
        \<and> find_tags [''table''] tbl = []
        \<and> num_eq (snd (getRowAndColumnCount tbl)) (Num 1)
      \<longrightarrow> mark_at p (markDataTables el) = Some False)
   \<and> (attr tbl ''role'' \<noteq> Some (js ''presentation'') \<and> attr tbl ''datatable'' \<noteq> Some (js ''0'')
        \<and> concat (map find_all (find_tags [''caption''] tbl)) \<noteq> []
      \<longrightarrow> mark_at p (markDataTables el) = Some True)"
proof -
  have m: "mark_at p (markDataTables el) = Some (markDataTable tbl)"
    using mark_at_markDataTables [OF assms] .
  have "(attr tbl ''role'' = Some (js ''presentation'') \<longrightarrow> \<not> markDataTable tbl)
   \<and> (attr tbl ''role'' \<noteq> Some (js ''presentation'') \<and> attr tbl ''datatable'' \<noteq> Some (js ''0'')
        \<and> \<not> truthy (attr tbl ''summary'')
        \<and> concat (map find_all (find_tags [''caption''] tbl)) = []
        \<and> find_tags [''col'', ''colgroup'', ''tfoot'', ''thead'', ''th''] tbl = []
        \<and> find_tags [''table''] tbl = []
        \<and> num_eq (snd (getRowAndColumnCount tbl)) (Num 1)
      \<longrightarrow> \<not> markDataTable tbl)
   \<and> (attr tbl ''role'' \<noteq> Some (js ''presentation'') \<and> attr tbl ''datatable'' \<noteq> Some (js ''0'')
        \<and> concat (map find_all (find_tags [''caption''] tbl)) \<noteq> []
      \<longrightarrow> markDataTable tbl)"
    by (auto simp add: markDataTable_def split: prod.splits)
  then show ?thesis unfolding m by simp
qed

lemma twelve_rows_count: "getRowAndColumnCount table_single_column = (Num 12, Num 1)"
proof -
  have "find_tags [''tr''] table_single_column = replicate 12 single_cell_row"
    by (simp add: table_single_column_def twelve_rows_def single_cell_row_def find_tags_def
        find_all_def numeral_eq_Suc)
  moreover have "find_tags [''td''] single_cell_row = [Element ''td'' [] None [Text (js ''x'')]]"
    by (simp add: single_cell_row_def find_tags_def find_all_def)
  moreover have "span_of single_cell_row ''rowspan'' = Num 1"
    "span_of (Element ''td'' [] None [Text (js ''x'')]) ''colspan'' = Num 1"
    by (simp_all add: span_of_def single_cell_row_def attr_def num_truthy_def is_zero_def)
  moreover have "num_add (Num 0) (Num 1) = Num 1" "num_max (Num 0) (Num 1) = Num 1"
    "num_max (Num 1) (Num 1) = Num 1"
    "num_add (Num 1) (Num 1) = Num 2" "num_add (Num 2) (Num 1) = Num 3"
    "num_add (Num 3) (Num 1) = Num 4" "num_add (Num 4) (Num 1) = Num 5"
    "num_add (Num 5) (Num 1) = Num 6" "num_add (Num 6) (Num 1) = Num 7"
    "num_add (Num 7) (Num 1) = Num 8" "num_add (Num 8) (Num 1) = Num 9"
    "num_add (Num 9) (Num 1) = Num 10" "num_add (Num 10) (Num 1) = Num 11"
    "num_add (Num 11) (Num 1) = Num 12"
    by (simp_all add: number_eval)
  ultimately show ?thesis
    by (simp add: getRowAndColumnCount_def numeral_eq_Suc)
qed

theorem markDataTables_cases_witness:
  "node_at [0, 0] tables_article = Some table_presentation
   \<and> node_at [1] tables_article = Some table_single_column
   \<and> node_at [2] tables_article = Some table_caption
   \<and> getRowAndColumnCount table_single_column = (Num 12, Num 1)
   \<and> mark_at [0, 0] (markDataTables tables_article) = Some False
   \<and> mark_at [1] (markDataTables tables_article) = Some False
   \<and> mark_at [2] (markDataTables tables_article) = Some True"
proof -
  have n: "node_at [0, 0] tables_article = Some table_presentation"
    "node_at [1] tables_article = Some table_single_column"
    "node_at [2] tables_article = Some table_caption"
    by (simp_all add: tables_article_def)
  have t: "tagName table_presentation = ''table''" "tagName table_single_column = ''table''"
    "tagName table_caption = ''table''"
    by (simp_all add: table_presentation_def table_single_column_def table_caption_def)
  have r: "attr table_presentation ''role'' = Some (js ''presentation'')"
    by (simp add: table_presentation_def attr_def)
  have s: "attr table_single_column ''role'' \<noteq> Some (js ''presentation'')"
    "attr table_single_column ''datatable'' \<noteq> Some (js ''0'')"
    "\<not> truthy (attr table_single_column ''summary'')"
    "concat (map find_all (find_tags [''caption''] table_single_column)) = []"
    "find_tags [''col'', ''colgroup'', ''tfoot'', ''thead'', ''th''] table_single_column = []"
    "find_tags [''table''] table_single_column = []"
    by (simp_all add: table_single_column_def twelve_rows_def single_cell_row_def attr_def
        find_tags_def find_all_def)
  have c: "attr table_caption ''role'' \<noteq> Some (js ''presentation'')"
    "attr table_caption ''datatable'' \<noteq> Some (js ''0'')"
    "concat (map find_all (find_tags [''caption''] table_caption)) \<noteq> []"
    by (simp_all add: table_caption_def attr_def find_tags_def find_all_def)
  have "mark_at [0, 0] (markDataTables tables_article) = Some False"
    using markDataTables_cases [OF n(1) _ t(1)] r by simp
  moreover have "mark_at [1] (markDataTables tables_article) = Some False"
    using markDataTables_cases [OF n(2) _ t(2)] s by (simp add: twelve_rows_count num_eq_def)
  moreover have "mark_at [2] (markDataTables tables_article) = Some True"
    using markDataTables_cases [OF n(3) _ t(3)] c by simp
  ultimately show ?thesis using n by (simp add: twelve_rows_count)
qed

section \<open>Conditional cleaning\<close>





lemma commas_concat: "commas_of (concat xs) = sum_list (map commas_of xs)"
  by (induction xs) (simp_all add: commas_of_def)




text \<open>What the traversal makes of an element: nothing, or the element with its cleaned children.\<close>

lemma cleanConditionally_node_eq:
  assumes "flagIsActive fl FLAG_CLEAN_CONDITIONALLY" and "isElement e"
  shows "cleanConditionally_node rt opts fl tag anc e =
     (if tagName e = tag
         \<and> cleanConditionally_remove rt opts fl tag anc (cleanConditionally rt opts fl anc e tag)
      then [] else [cleanConditionally rt opts fl anc e tag])"
  using assms by (cases e) (auto simp add: cleanConditionally_def Let_def)

lemma cleanConditionally_children:
  assumes "flagIsActive fl FLAG_CLEAN_CONDITIONALLY"
  shows "cleanConditionally rt opts fl anc (Element t a d ks) tag =
     Element t a d (concat (map (cleanConditionally_node rt opts fl tag (Element t a d ks # anc)) ks))"
  using assms by (simp add: cleanConditionally_def)










lemma hasAncestorTag_from_similar:
  assumes "list_all2 similar A B" and "\<And>x y. similar x y \<Longrightarrow> f x = f y"
  shows "hasAncestorTag_from depth A tg m f = hasAncestorTag_from depth B tg m f"
  using assms(1)
proof (induction A B arbitrary: depth rule: list_all2_induct)
  case Nil
  then show ?case by simp
next
  case (Cons x xs y ys)
  from Cons(1) have "nodeType x = nodeType y" "tagName x = tagName y"
    by (simp_all add: similar_def)
  moreover from Cons(1) have "f x = f y" by (rule assms(2))
  moreover have "hasAncestorTag_from (Suc depth) xs tg m f = hasAncestorTag_from (Suc depth) ys tg m f"
    by (rule Cons.IH)
  ultimately show ?case by simp
qed

lemma hasAncestorTag_similar:
  assumes "list_all2 similar A B"
  shows "hasAncestorTag A tg m isDataTable = hasAncestorTag B tg m isDataTable"
    and "hasAncestorTag A tg m alwaysTrue = hasAncestorTag B tg m alwaysTrue"
proof -
  have "similar x y \<Longrightarrow> isDataTable x = isDataTable y" for x y
    by (simp add: similar_def)
  then show "hasAncestorTag A tg m isDataTable = hasAncestorTag B tg m isDataTable"
    unfolding hasAncestorTag_def by (rule hasAncestorTag_from_similar [OF assms])
  have "similar x y \<Longrightarrow> alwaysTrue x = alwaysTrue y" for x y
    by (simp add: alwaysTrue_def)
  then show "hasAncestorTag A tg m alwaysTrue = hasAncestorTag B tg m alwaysTrue"
    unfolding hasAncestorTag_def by (rule hasAncestorTag_from_similar [OF assms])
qed

lemma cleanConditionally_remove_similar:
  assumes "list_all2 similar A B"
  shows "cleanConditionally_remove rt opts fl tag A n = cleanConditionally_remove rt opts fl tag B n"
  unfolding cleanConditionally_remove_def
    hasAncestorTag_similar(1) [OF assms] hasAncestorTag_similar(2) [OF assms] ..

lemma similar_refl: "similar x x"
  by (simp add: similar_def)

lemma list_all2_similar_refl: "list_all2 similar A A"
  by (simp add: list_all2_refl similar_refl)

lemma cleanConditionally_node_similar:
  "list_all2 similar A B \<Longrightarrow>
     cleanConditionally_node rt opts fl tag A n = cleanConditionally_node rt opts fl tag B n"
proof (induction n arbitrary: A B)
  case (Element t a d ks)
  have s: "list_all2 similar (Element t a d ks # A) (Element t a d ks # B)"
    using Element.prems by (simp add: similar_refl)
  have "cleanConditionally_node rt opts fl tag (Element t a d ks # A) k
        = cleanConditionally_node rt opts fl tag (Element t a d ks # B) k" if "k \<in> set ks" for k
    using Element.IH [OF that s] .
  then have "concat (map (cleanConditionally_node rt opts fl tag (Element t a d ks # A)) ks)
      = concat (map (cleanConditionally_node rt opts fl tag (Element t a d ks # B)) ks)"
    by (intro arg_cong [where f = concat] map_cong) simp_all
  then show ?case
    using cleanConditionally_remove_similar [OF Element.prems] by (simp add: Let_def)
qed simp_all

text \<open>The cleaning of the children does not depend on how many children the parent has.\<close>

lemma cleanConditionally_node_parent:
  "cleanConditionally_node rt opts fl tag (Element t a d ks # anc)
     = cleanConditionally_node rt opts fl tag (Element t a d ks' # anc)"
  by (rule ext, rule cleanConditionally_node_similar)
     (simp add: similar_def isDataTable_def list_all2_similar_refl)

lemma concat_map_nth:
  "i < length ks \<Longrightarrow>
     concat (map f ks) = concat (map f (take i ks)) @ f (ks ! i) @ concat (map f (drop (Suc i) ks))"
proof (induction ks arbitrary: i)
  case Nil
  then show ?case by simp
next
  case (Cons k ks)
  then show ?case by (cases i) simp_all
qed

text \<open>An element that the traversal removes leaves the result as if it had not been there.\<close>

lemma removed_as_absent:
  assumes act: "flagIsActive fl FLAG_CLEAN_CONDITIONALLY"
  shows "node_at p el = Some e \<Longrightarrow> p \<noteq> [] \<Longrightarrow> isElement e \<Longrightarrow> tagName e = tag
    \<Longrightarrow> cleanConditionally_remove rt opts fl tag (chain_at p anc el)
          (cleanConditionally rt opts fl (chain_at p anc el) e tag)
    \<Longrightarrow> cleanConditionally rt opts fl anc el tag = cleanConditionally rt opts fl anc (delete_at p el) tag"
proof (induction p arbitrary: el anc)
  case Nil
  then show ?case by simp
next
  case (Cons i q)
  from Cons.prems(1) obtain t a d ks where el: "el = Element t a d ks"
    by (cases el) auto
  from Cons.prems(1) el have i: "i < length ks" and q: "node_at q (ks ! i) = Some e"
    by (auto split: if_splits)
  let ?k = "ks ! i"
  let ?anc = "Element t a d ks # anc"
  let ?f = "cleanConditionally_node rt opts fl tag ?anc"
  have chain: "chain_at (i # q) anc el = chain_at q ?anc ?k" using el i by simp
  have L: "cleanConditionally rt opts fl anc el tag = Element t a d (concat (map ?f ks))"
    using el act by (simp add: cleanConditionally_children)
  show ?case
  proof (cases q)
    case Nil
    with q have e: "e = ?k" by simp
    let ?ks2 = "take i ks @ drop (Suc i) ks"
    have "?f ?k = []"
      using cleanConditionally_node_eq [OF act Cons.prems(3), of rt opts tag ?anc]
        Cons.prems(4,5) chain Nil e by simp
    moreover have "concat (map ?f ks) = concat (map ?f (take i ks)) @ ?f ?k @ concat (map ?f (drop (Suc i) ks))"
      using i by (rule concat_map_nth)
    ultimately have c: "concat (map ?f ks) = concat (map ?f ?ks2)" by simp
    have fp: "?f = cleanConditionally_node rt opts fl tag (Element t a d ?ks2 # anc)"
      by (rule cleanConditionally_node_parent)
    have "cleanConditionally rt opts fl anc el tag = Element t a d (concat (map ?f ?ks2))"
      unfolding L c ..
    also have "\<dots> = Element t a d
        (concat (map (cleanConditionally_node rt opts fl tag (Element t a d ?ks2 # anc)) ?ks2))"
      by (subst fp) (rule refl)
    also have "\<dots> = cleanConditionally rt opts fl anc (Element t a d ?ks2) tag"
      using act by (simp only: cleanConditionally_children)
    also have "Element t a d ?ks2 = delete_at (i # q) el" unfolding el Nil by simp
    finally show ?thesis .
  next
    case (Cons j r)
    let ?k2 = "delete_at q ?k"
    let ?ks2 = "ks[i := ?k2]"
    have kel: "isElement ?k" using q Cons by (cases ?k) auto
    have qne: "q \<noteq> []" using Cons by simp
    have v: "cleanConditionally_remove rt opts fl tag (chain_at q ?anc ?k)
          (cleanConditionally rt opts fl (chain_at q ?anc ?k) e tag)"
      using Cons.prems(5) chain by simp
    have IH: "cleanConditionally rt opts fl ?anc ?k tag = cleanConditionally rt opts fl ?anc ?k2 tag"
      using Cons.IH [OF q qne Cons.prems(3,4) v] .
    obtain tk ak dk ksk where k: "?k = Element tk ak dk ksk" using kel by (cases ?k) auto
    have k2: "\<exists>ksk'. ?k2 = Element tk ak dk ksk'"
      unfolding k Cons by (cases r) simp_all
    then have kel2: "isElement ?k2" by auto
    have tag2: "tagName ?k2 = tagName ?k" using k k2 by auto
    have same: "?f ?k2 = ?f ?k"
      unfolding cleanConditionally_node_eq [OF act kel] cleanConditionally_node_eq [OF act kel2]
        IH tag2 ..
    have "map ?f ?ks2 = (map ?f ks)[i := ?f ?k2]" by (rule map_update)
    also have "\<dots> = map ?f ks" using i same by (simp add: list_update_same_conv)
    finally have m: "map ?f ?ks2 = map ?f ks" .
    have fp: "cleanConditionally_node rt opts fl tag (Element t a d ?ks2 # anc) = ?f"
      by (rule cleanConditionally_node_parent)
    have "cleanConditionally rt opts fl anc (Element t a d ?ks2) tag
        = Element t a d (concat (map (cleanConditionally_node rt opts fl tag (Element t a d ?ks2 # anc)) ?ks2))"
      using act by (simp only: cleanConditionally_children)
    also have "\<dots> = Element t a d (concat (map ?f ?ks2))"
      by (subst fp) (rule refl)
    also have "\<dots> = Element t a d (concat (map ?f ks))" unfolding m ..
    also have "\<dots> = cleanConditionally rt opts fl anc el tag" unfolding L ..
    finally have R: "cleanConditionally rt opts fl anc (Element t a d ?ks2) tag
        = cleanConditionally rt opts fl anc el tag" .
    have "delete_at (i # q) el = Element t a d ?ks2" unfolding el Cons using i by simp
    then show ?thesis using R by simp
  qed
qed


lemma flags_initial: "flags initial_state = 7"
  by (simp add: flag_eval)

lemma active_initial: "flagIsActive (flags initial_state) FLAG_CLEAN_CONDITIONALLY"
  by (simp add: flag_eval)

lemmas verdict_eval = cleanConditionally_remove_def shouldRemoveNode_def getTextDensity_def
  getLinkDensity_def hasAncestorTag_def isDataTable_def adWords_def adWordList_def
  loadingWords_def loadingWordList_def DIV_TO_P_ELEMS_def isAllowedVideo_def children_def
  example_runtime_def DEFAULT_OPTIONS_def





text \<open>Every alternative of \<open>adWords\<close> and of \<open>loadingWords\<close> matches, whatever the folding.\<close>

lemma adWords_listed: "w \<in> set adWordList \<Longrightarrow> adWords rt w"
  by (simp add: adWords_def)

lemma loadingWords_listed: "w \<in> set loadingWordList \<Longrightarrow> loadingWords rt w"
  by (simp add: loadingWords_def)

lemma verdict_removes_ad_words:
  assumes "\<not> (tag = ''table'' \<and> isDataTable node)"
    and "\<not> hasAncestorTag ancestors ''table'' (- 1) isDataTable"
    and "\<not> hasAncestorTag ancestors ''code'' 3 alwaysTrue"
    and "\<not> list_ex isDataTable (find_tags [''table''] node)"
    and "0 \<le> getClassWeight fl node"
    and "commas_of (getInnerText node True) \<le> 10"
    and "\<not> list_ex (isAllowedVideo rt opts) (find_tags [''object'', ''embed'', ''iframe''] node)"
    and "adWords rt (getInnerText node True) \<or> loadingWords rt (getInnerText node True)"
  shows "cleanConditionally_remove rt opts fl tag ancestors node"
  using assms by (simp add: cleanConditionally_remove_def commas_of_def Let_def)

text \<open>
  C10, as the code has it: while \<open>CLEAN_CONDITIONALLY\<close> is active, a candidate element
  is judged after the candidates below it, on what the cleaning has left of it. A
  candidate whose normalized inner text then matches \<open>adWords\<close> or \<open>loadingWords\<close> is
  removed (the result of the cleaning is what it would be without the element), provided
  that, as it is then, it is not itself a data table (for the tag \<open>table\<close>), has no data
  table and no \<open>code\<close> among the ancestors that are looked at, has no data table below
  it, has a class weight that is not negative, at most 10 commas in its text, and no
  embed that \<open>allowedVideoRegex\<close> accepts.
\<close>

theorem cleanConditionally_removes_ad_words:
  assumes "flagIsActive fl FLAG_CLEAN_CONDITIONALLY"
    and "node_at p el = Some e" and "p \<noteq> []" and "isElement e" and "tagName e = tag"
    and "judged = cleanConditionally rt opts fl (chain_at p anc el) e tag"
    and "\<not> (tag = ''table'' \<and> isDataTable judged)"
    and "\<not> hasAncestorTag (chain_at p anc el) ''table'' (- 1) isDataTable"
    and "\<not> hasAncestorTag (chain_at p anc el) ''code'' 3 alwaysTrue"
    and "\<not> list_ex isDataTable (find_tags [''table''] judged)"
    and "0 \<le> getClassWeight fl judged"
    and "commas_of (getInnerText judged True) \<le> 10"
    and "\<not> list_ex (isAllowedVideo rt opts) (find_tags [''object'', ''embed'', ''iframe''] judged)"
    and "adWords rt (getInnerText judged True) \<or> loadingWords rt (getInnerText judged True)"
  shows "cleanConditionally rt opts fl anc el tag = cleanConditionally rt opts fl anc (delete_at p el) tag"
proof -
  have "cleanConditionally_remove rt opts fl tag (chain_at p anc el) judged"
    using assms(7-14) by (rule verdict_removes_ad_words)
  then show ?thesis
    unfolding assms(6) by (rule removed_as_absent [OF assms(1,2,3,4,5)])
qed

theorem cleanConditionally_removes_ad_words_witness:
  "node_at [0, 0] nested_werbung = Some werbung_div
   \<and> getInnerText werbung_div True = js ''Werbung''
   \<and> adWords example_runtime (getInnerText werbung_div True)
   \<and> delete_at [0, 0] nested_werbung
        = Element ''div'' [] None [Element ''section'' [] None [Element ''p'' [] None [Text (js ''Some words.'')]]]
   \<and> cleanConditionally example_runtime (DEFAULT_OPTIONS example_runtime) (flags initial_state) []
        nested_werbung ''div''
        = Element ''div'' [] None [Element ''section'' [] None [Element ''p'' [] None [Text (js ''Some words.'')]]]"
proof -
  let ?R = example_runtime and ?O = "DEFAULT_OPTIONS example_runtime"
  let ?c = "chain_at [0, 0] [] nested_werbung"
  have n: "node_at [0, 0] nested_werbung = Some werbung_div"
    by (simp add: nested_werbung_def)
  have d: "delete_at [0, 0] nested_werbung
        = Element ''div'' [] None [Element ''section'' [] None [Element ''p'' [] None [Text (js ''Some words.'')]]]"
    by (simp add: nested_werbung_def)
  have j: "werbung_div = cleanConditionally ?R ?O (flags initial_state) ?c werbung_div ''div''"
    by (simp add: cleanConditionally_def werbung_div_def)
  have i: "getInnerText werbung_div True = js ''Werbung''"
    by (simp add: werbung_div_def text_eval)
  have a: "adWords ?R (getInnerText werbung_div True)"
    by (simp add: i adWords_def adWordList_def example_runtime_def ascii_lower_def js_def)
  have w: "0 \<le> getClassWeight (flags initial_state) werbung_div"
    by (simp add: werbung_div_def getClassWeight_def attr_def)
  have c: "commas_of (getInnerText werbung_div True) \<le> 10"
    by (simp add: i commas_of_def js_def)
  have h: "\<not> hasAncestorTag ?c ''table'' (- 1) isDataTable" "\<not> hasAncestorTag ?c ''code'' 3 alwaysTrue"
    by (simp_all add: nested_werbung_def hasAncestorTag_def)
  have f: "\<not> list_ex isDataTable (find_tags [''table''] werbung_div)"
    "\<not> list_ex (isAllowedVideo ?R ?O) (find_tags [''object'', ''embed'', ''iframe''] werbung_div)"
    "isElement werbung_div" "tagName werbung_div = ''div''"
    by (simp_all add: werbung_div_def find_tags_def find_all_def)
  have "cleanConditionally ?R ?O (flags initial_state) [] nested_werbung ''div''
      = cleanConditionally ?R ?O (flags initial_state) [] (delete_at [0, 0] nested_werbung) ''div''"
    using a by (intro cleanConditionally_removes_ad_words [OF active_initial n _ f(3,4) j _ h f(1) w c f(2)])
      simp_all
  also have "\<dots> = Element ''div'' [] None [Element ''section'' [] None [Element ''p'' [] None [Text (js ''Some words.'')]]]"
    unfolding d by (simp add: cleanConditionally_def active_initial)
  finally show ?thesis using n i a d by simp
qed

text \<open>
  C10 as stated fails for an element with a data table below it: in
  \<open><div><table summary="s"><tr><td>ad</td></tr></table></div>\<close> the table is marked as
  a data table, the inner text of the \<open>div\<close> is "ad", its class weight is 0, it has no
  comma, no embed and no ancestor that is a data table or \<open>code\<close>, and it is kept. And
  the inner text that counts is the one that is left when the element is judged: the
  inner text of \<open><div><p>a</p><div>d</div></div>\<close> is "ad", its class weight is 0, it has
  no comma, no embed, no table, and it is kept, judged on "a" after its inner \<open>div\<close> has
  gone.
\<close>

theorem cleanConditionally_ad_words_counterexample:
  "markDataTables (Element ''div'' [] None [ad_table_div_unmarked]) = Element ''div'' [] None [ad_table_div]
   \<and> getInnerText ad_table_div True = js ''ad''
   \<and> adWords example_runtime (getInnerText ad_table_div True)
   \<and> 0 \<le> getClassWeight (flags initial_state) ad_table_div
   \<and> commas_of (getInnerText ad_table_div True) \<le> 10
   \<and> find_tags [''object'', ''embed'', ''iframe''] ad_table_div = []
   \<and> cleanConditionally example_runtime (DEFAULT_OPTIONS example_runtime) (flags initial_state) []
         (Element ''div'' [] None [ad_table_div]) ''div'' = Element ''div'' [] None [ad_table_div]
   \<and> getInnerText ad_in_two_parts True = js ''ad''
   \<and> adWords example_runtime (getInnerText ad_in_two_parts True)
   \<and> 0 \<le> getClassWeight (flags initial_state) ad_in_two_parts
   \<and> commas_of (getInnerText ad_in_two_parts True) \<le> 10
   \<and> find_tags [''object'', ''embed'', ''iframe'', ''table''] ad_in_two_parts = []
   \<and> cleanConditionally example_runtime (DEFAULT_OPTIONS example_runtime) (flags initial_state) []
         (Element ''div'' [] None [ad_in_two_parts]) ''div''
       = Element ''div'' [] None [Element ''div'' [] None [Element ''p'' [] None [Text (js ''a'')]]]"
proof -
  let ?R = example_runtime and ?O = "DEFAULT_OPTIONS example_runtime"
  have m: "markDataTables (Element ''div'' [] None [ad_table_div_unmarked]) = Element ''div'' [] None [ad_table_div]"
    by (simp add: ad_table_div_unmarked_def ad_table_div_def markDataTable_def attr_def js_def)
  have i: "getInnerText ad_table_div True = js ''ad''" "getInnerText ad_in_two_parts True = js ''ad''"
    by (simp_all add: ad_table_div_def ad_in_two_parts_def text_eval)
  have a: "adWords ?R (js ''ad'')"
    by (simp add: adWords_def adWordList_def)
  have w: "0 \<le> getClassWeight (flags initial_state) ad_table_div"
    "0 \<le> getClassWeight (flags initial_state) ad_in_two_parts"
    by (simp_all add: ad_table_div_def ad_in_two_parts_def getClassWeight_def attr_def)
  have e: "find_tags [''object'', ''embed'', ''iframe''] ad_table_div = []"
    "find_tags [''object'', ''embed'', ''iframe'', ''table''] ad_in_two_parts = []"
    by (simp_all add: ad_table_div_def ad_in_two_parts_def find_tags_def find_all_def)
  have c: "commas_of (js ''ad'') \<le> 10" by (simp add: commas_of_def js_def)
  have t: "list_ex isDataTable (find_tags [''table''] ad_table_div)"
    by (simp add: ad_table_div_def find_tags_def find_all_def isDataTable_def)
  have k1: "\<not> cleanConditionally_remove ?R ?O (flags initial_state) ''div''
      [Element ''div'' [] None [ad_table_div]] ad_table_div"
    using t by (simp add: cleanConditionally_remove_def hasAncestorTag_def)
  have r1: "cleanConditionally ?R ?O (flags initial_state) [] (Element ''div'' [] None [ad_table_div]) ''div''
      = Element ''div'' [] None [ad_table_div]"
    using k1 by (simp add: cleanConditionally_def active_initial)
      (simp add: ad_table_div_def cleanConditionally_def)
  have inner: "cleanConditionally_remove ?R ?O (flags initial_state) ''div''
      [ad_in_two_parts, Element ''div'' [] None [ad_in_two_parts]] (Element ''div'' [] None [Text (js ''d'')])"
    unfolding flags_initial
    by (simp add: verdict_eval weight_eval flag_eval text_eval number_eval ad_in_two_parts_def)
  have outer: "\<not> cleanConditionally_remove ?R ?O (flags initial_state) ''div''
      [Element ''div'' [] None [ad_in_two_parts]] (Element ''div'' [] None [Element ''p'' [] None [Text (js ''a'')]])"
    unfolding flags_initial
    by (simp add: verdict_eval weight_eval flag_eval text_eval number_eval)
  have r2: "cleanConditionally ?R ?O (flags initial_state) [] (Element ''div'' [] None [ad_in_two_parts]) ''div''
       = Element ''div'' [] None [Element ''div'' [] None [Element ''p'' [] None [Text (js ''a'')]]]"
    using inner outer
    by (simp add: cleanConditionally_def active_initial) (simp add: ad_in_two_parts_def)
  from m i a w e c r1 r2 show ?thesis by simp
qed

section \<open>The limit on the number of elements\<close>

lemma decimal_4: "decimal 4 = js ''4''"
  by (simp add: decimal.simps js_def)

text \<open>
  C4: with a positive \<open>maxElemsToParse\<close>, \<open>parse\<close> throws the error "Aborting parsing
  document; N elements found" when the number N of elements of the document is greater
  than the limit, and returns a result when N is at most the limit, N equal to the limit
  included. In the model the check of the limit is the only statement of \<open>parse\<close> that
  throws.
\<close>

theorem parse_maxElemsToParse:
  "(0 < maxElemsToParse opts \<and> maxElemsToParse opts < int (length (find_all doc)) \<longrightarrow>
      parse sg rt opts st doc =
        Inl (Error (js ''Aborting parsing document; '' @ decimal (length (find_all doc))
                     @ js '' elements found'')))
   \<and> (int (length (find_all doc)) \<le> maxElemsToParse opts \<longrightarrow>
        (\<exists>r. parse sg rt opts st doc = Inr r))"
  by (simp add: parse_def Let_def split: prod.splits)

theorem parse_maxElemsToParse_witness:
  "length (find_all doc_yo) = 4
   \<and> parse example_stages example_runtime (DEFAULT_OPTIONS example_runtime\<lparr>maxElemsToParse := 1\<rparr>)
        initial_state doc_yo
      = Inl (Error (js ''Aborting parsing document; 4 elements found''))
   \<and> (\<exists>r. parse example_stages example_runtime (DEFAULT_OPTIONS example_runtime\<lparr>maxElemsToParse := 4\<rparr>)
        initial_state doc_yo = Inr r)"
proof -
  have n: "length (find_all doc_yo) = 4"
    by (simp add: doc_yo_def find_all_def)
  have "parse example_stages example_runtime (DEFAULT_OPTIONS example_runtime\<lparr>maxElemsToParse := 1\<rparr>)
        initial_state doc_yo
      = Inl (Error (js ''Aborting parsing document; '' @ decimal 4 @ js '' elements found''))"
    using parse_maxElemsToParse
      [of "DEFAULT_OPTIONS example_runtime\<lparr>maxElemsToParse := 1\<rparr>" doc_yo example_stages
          example_runtime initial_state]
    by (simp add: n)
  moreover have "\<exists>r. parse example_stages example_runtime
        (DEFAULT_OPTIONS example_runtime\<lparr>maxElemsToParse := 4\<rparr>) initial_state doc_yo = Inr r"
    using parse_maxElemsToParse
      [of "DEFAULT_OPTIONS example_runtime\<lparr>maxElemsToParse := 4\<rparr>" doc_yo example_stages
          example_runtime initial_state]
    by (simp add: n)
  ultimately show ?thesis
    by (simp add: n decimal_4 js_def)
qed

section \<open>Metadata only\<close>

lemma parse_without_extraction:
  assumes "\<not> extraction opts" and "parse sg rt opts st doc = Inr (r, st', doc')"
  shows "r_textContent r = None \<and> r_length r = None \<and> r_content r = serializer opts None
    \<and> r_excerpt r = or_null (m_excerpt (getArticleMetadata sg doc
         (if disableJSONLD opts then empty_metadata else getJSONLD sg doc)))
    \<and> doc' = doc"
  using assms by (auto simp add: parse_def Let_def split: if_splits)

lemma excerpt_description:
  "m_excerpt (getArticleMetadata sg doc_description empty_metadata) = Some (js ''Hello'')"
  by (simp add: getArticleMetadata_def doc_description_def meta_value_def namePattern_def
      name_key_end_def strip_ci_def unescapeHtmlEntities_def numeric_ref_def ascii_lower_def
      empty_metadata_def text_eval)

text \<open>
  C1 does not hold of the code. With \<open>extraction\<close> false, \<open>textContent\<close> and \<open>length\<close> are
  null and \<open>content\<close> is what the serializer makes of null (null for the default
  serializer), but \<open>excerpt\<close> is the description found in the metadata: for a document
  with \<open><meta name="description" content="Hello">\<close> the call returns the excerpt
  "Hello".
\<close>

theorem parse_without_extraction_excerpt:
  "\<exists>r st' doc'.
      parse example_stages example_runtime (DEFAULT_OPTIONS example_runtime\<lparr>extraction := False\<rparr>)
        initial_state doc_description = Inr (r, st', doc')
      \<and> r_content r = None \<and> r_textContent r = None \<and> r_length r = None
      \<and> r_excerpt r = Some (js ''Hello'')"
proof -
  have j: "getJSONLD example_stages doc_description = empty_metadata"
    by (simp add: getJSONLD_def doc_description_def find_tags_def find_all_def)
  show ?thesis
    by (simp add: parse_def Let_def DEFAULT_OPTIONS_def j excerpt_description or_null_def
        defaultSerializer_def) (simp add: js_def)
qed

section \<open>The removals before the extraction\<close>

text \<open>
  C2 does not hold of the code. \<open>parse\<close> calls \<open>removeComments(this.$, this.$.root()[0])\<close>,
  and \<open>removeComments\<close> takes its one argument for the node: what it receives is the API
  object, and nothing is removed. Scripts, \<open>noscript\<close> and styles are removed; the
  directive and the comment of the document are still there when \<open>grabArticle\<close> starts.
  Applied to the root, \<open>removeComments\<close> removes both.
\<close>

theorem prePass_removals_keeps_comment:
  "prePass_removals doc_comment =
     Root [Directive (js ''!DOCTYPE html''),
       Element ''html'' [] None
         [Element ''head'' [] None [],
          Element ''body'' [] None
            [Comment (js '' note ''), Element ''p'' [] None [Text (js ''Body text'')]]]]
   \<and> prePass example_stages doc_comment = prePass_removals doc_comment
   \<and> removeNodes [''style''] (removeNodes [''script'', ''noscript''] (removeComments_call [RootNode] doc_comment)) =
     Root [Element ''html'' [] None
         [Element ''head'' [] None [],
          Element ''body'' [] None [Element ''p'' [] None [Text (js ''Body text'')]]]]"
  by (simp add: prePass_def prePass_removals_def removeComments_call_def removeNodes_def
      replaceNodeTags_def doc_comment_def example_stages_def)

end
